theory Spec2Isabelle
  imports Main "HOL-Library.Product_Lexorder" "HOL-Library.List_Lexorder"
begin

section \<open>Python strings\<close>

text \<open>
  A Python \<open>str\<close> is a sequence of Unicode code points; it is modelled as a list of
  naturals. ASCII literals of the source are written with \<open>ascii\<close>, a backslash as
  \<open>BS\<close>, and the CJK literals of the source by their code points.
\<close>

type_synonym pychar = nat
type_synonym pystr = "pychar list"

definition ascii :: "string \<Rightarrow> pystr" where
  "ascii s = map of_char s"

definition BS :: pychar where
  "BS = 92"

definition cmd :: "string \<Rightarrow> pystr" where
  "cmd s = BS # ascii s"

text \<open>\<open>str.isspace\<close> of one code point; \<open>str.strip()\<close> and the pattern \<open>\s\<close> use it.\<close>

definition py_isspace :: "pychar \<Rightarrow> bool" where
  "py_isspace c \<longleftrightarrow>
     (9 \<le> c \<and> c \<le> 13) \<or> (28 \<le> c \<and> c \<le> 32) \<or> c = 133 \<or> c = 160 \<or> c = 5760 \<or>
     (8192 \<le> c \<and> c \<le> 8202) \<or> c = 8232 \<or> c = 8233 \<or> c = 8239 \<or> c = 8287 \<or> c = 12288"

definition py_strip :: "pystr \<Rightarrow> pystr" where
  "py_strip s = rev (dropWhile py_isspace (rev (dropWhile py_isspace s)))"

fun py_join :: "pystr \<Rightarrow> pystr list \<Rightarrow> pystr" where
  "py_join sep [] = []"
| "py_join sep [x] = x"
| "py_join sep (x # y # ys) = x @ sep @ py_join sep (y # ys)"

definition py_replace_char :: "pychar \<Rightarrow> pychar \<Rightarrow> pystr \<Rightarrow> pystr" where
  "py_replace_char a b s = map (\<lambda>c. if c = a then b else c) s"

text \<open>\<open>str(n)\<close> of a non-negative integer: its decimal digits.\<close>

function str_of_nat :: "nat \<Rightarrow> pystr" where
  "str_of_nat n = (if n < 10 then [48 + n] else str_of_nat (n div 10) @ [48 + n mod 10])"
  by pat_completeness auto
termination
  by (relation "measure id") auto

declare str_of_nat.simps [simp del]

section \<open>Errors and the outside world\<close>

datatype error =
    ValueError | IndexError | TypeError | OSError | ReError | ImportError | UnboundLocalError
  | UnicodeEncodeError

type_synonym path = "pystr list"

datatype docx_elem =
    Heading pystr nat
  | Paragraph pystr
  | CaptionParagraph pystr
  | Picture path
  | PageBreak

text \<open>
  What a write leaves at a path: a cropped image, a text, a Word document, a copy of the
  file at another path, or whatever a write that failed half-way left there.
\<close>

datatype file_content =
    ImageFile "int \<times> int \<times> int \<times> int"
  | TextFile pystr
  | DocxFile "docx_elem list"
  | CopyOf path
  | Incomplete

text \<open>
  The mutable world a run acts on: for each path, as the program spelled it, what the run
  last wrote there; the paths written so far, in the order of the writes; and the texts
  submitted to the text-cleanup service, in the order of submission. The run never reads
  this record: whether a path exists is asked of the file system.
\<close>

record world =
  files :: "path \<rightharpoonup> file_content"
  written :: "path list"
  sent :: "pystr list"

definition write_file :: "path \<Rightarrow> file_content \<Rightarrow> world \<Rightarrow> world" where
  "write_file p c w = w\<lparr>files := (files w)(p \<mapsto> c), written := written w @ [p]\<rparr>"

datatype http_body = BodyContent pystr | BodyMalformed
datatype http_out = Response nat http_body | RequestRaised

text \<open>
  An OCR field is the value at index 1 of a recognised line: its elements when it is a
  list or tuple, and its \<open>str()\<close>.
\<close>

datatype ocr_field = Field "pystr list option" pystr
datatype line_result = LineSeq "ocr_field list" | LineOther

datatype ocr_out = OcrRaised | OcrResult "ocr_field list list option list"

record region =
  rtype :: "pystr option"
  bbox :: "int list option"
  res :: "line_result list option"

datatype layout_item = DictItem region | ObjItem "pystr option" "int list option" "line_result list option" | OtherItem
datatype layout_out = LayoutRaised | LayoutList "layout_item list" | LayoutSingle layout_item

datatype write_out = Written | NotWritten | WriteRaised

text \<open>
  The external capabilities: \<open>cv2.imread\<close> (the shape of the decoded array, or None),
  the layout model, the OCR model, the HTTP POST to the cleanup service, \<open>mkdir\<close>, and
  \<open>cv2.imwrite\<close>, which reports a failed write by its return value (discarded by the
  caller) or by raising; the listing of the input folder; whether \<open>python-docx\<close> can be
  imported, whether its \<open>add_picture\<close> and \<open>save\<close> raise, and what a call of
  \<open>add_paragraph\<close> that raises has already put into the document; whether opening a
  file for writing raises, and whether writing to it then fails; whether \<open>shutil.copy2\<close>
  raises; and \<open>Path.exists\<close>, the answer of the file system for a path in the world
  as it is (it resolves \<open>..\<close> and links, and is true of directories).
\<close>

record env =
  imread :: "path \<Rightarrow> nat list option"
  structure_model :: "path \<Rightarrow> layout_out"
  ocr :: "path \<Rightarrow> int \<times> int \<times> int \<times> int \<Rightarrow> ocr_out"
  post :: "pystr \<Rightarrow> http_out"
  mkdir_raises :: "path \<Rightarrow> bool"
  imwrite :: "path \<Rightarrow> write_out"
  iterdir :: "path \<Rightarrow> path list"
  docx_available :: bool
  add_picture_raises :: "path \<Rightarrow> bool"
  save_raises :: "path \<Rightarrow> bool"
  failed_paragraph :: "pystr \<Rightarrow> docx_elem list"
  open_raises :: "path \<Rightarrow> bool"
  write_raises :: "path \<Rightarrow> bool"
  copy_raises :: "path \<Rightarrow> path \<Rightarrow> bool"
  exists_on_disk :: "world \<Rightarrow> path \<Rightarrow> bool"

section \<open>clean_text_for_xml\<close>

definition is_ctrl :: "pychar \<Rightarrow> bool" where
  "is_ctrl c \<longleftrightarrow> c \<le> 8 \<or> (11 \<le> c \<and> c \<le> 12) \<or> (14 \<le> c \<and> c \<le> 31)"

definition clean_text_for_xml :: "pystr \<Rightarrow> pystr" where
  "clean_text_for_xml text = (if text = [] then [] else filter (\<lambda>c. \<not> is_ctrl c) text)"

section \<open>process_text_with_deepseek\<close>

text \<open>
  The request carries the fixed prompt followed by the text, so the outcome of the POST is
  a function of the text. A timeout is an exception of the POST.
\<close>

definition process_text_with_deepseek :: "env \<Rightarrow> pystr \<Rightarrow> pystr" where
  "process_text_with_deepseek e ocr_text =
     (case post e ocr_text of
        Response status body \<Rightarrow>
          (if status = 200
           then (case body of BodyContent c \<Rightarrow> c | BodyMalformed \<Rightarrow> ocr_text)
           else ocr_text)
      | RequestRaised \<Rightarrow> ocr_text)"

section \<open>save_region_image\<close>

text \<open>
  \<open>x1, y1, x2, y2 = map(int, bbox)\<close> raises ValueError unless the box has exactly four
  entries; the box is then clamped to the array's shape.
\<close>

definition clamp_bbox :: "nat list \<Rightarrow> int list \<Rightarrow> error + int \<times> int \<times> int \<times> int" where
  "clamp_bbox shape b =
     (case b of
        [x1, y1, x2, y2] \<Rightarrow>
          (if length shape < 2 then Inl IndexError
           else Inr (max 0 x1, max 0 y1, min (int (shape ! 1)) x2, min (int (shape ! 0)) y2))
      | _ \<Rightarrow> Inl ValueError)"

definition region_file_name :: "nat \<Rightarrow> nat \<Rightarrow> pystr" where
  "region_file_name page_index region_index =
     ascii ''page_'' @ str_of_nat page_index @ ascii ''_region_'' @ str_of_nat region_index @ ascii ''.jpg''"

definition save_region_image ::
  "env \<Rightarrow> nat list option \<Rightarrow> int list \<Rightarrow> pystr \<Rightarrow> path \<Rightarrow> nat \<Rightarrow> nat \<Rightarrow> world \<Rightarrow> world \<times> pystr option" where
  "save_region_image e img_array b region_type output_dir page_index region_index w =
     (case img_array of
        None \<Rightarrow> (w, None)
      | Some shape \<Rightarrow>
          if length shape \<noteq> 3 then (w, None)
          else (case clamp_bbox shape b of
                  Inl _ \<Rightarrow> (w, None)
                | Inr (x1, y1, x2, y2) \<Rightarrow>
                    if x2 > x1 \<and> y2 > y1 then
                      (let type_dir = output_dir @ [region_type];
                           name = region_file_name page_index region_index;
                           img_path = type_dir @ [name]
                       in if mkdir_raises e type_dir then (w, None)
                          else (case imwrite e img_path of
                                  WriteRaised \<Rightarrow> (w, None)
                                | NotWritten \<Rightarrow>
                                    (w, Some (py_replace_char BS 47 (region_type @ [47] @ name)))
                                | Written \<Rightarrow>
                                    (write_file img_path (ImageFile (x1, y1, x2, y2)) w,
                                     Some (py_replace_char BS 47 (region_type @ [47] @ name)))))
                    else (w, None)))"

section \<open>process_single_image\<close>

definition flatten_item :: "layout_item \<Rightarrow> region list" where
  "flatten_item it =
     (case it of
        DictItem r \<Rightarrow> [r]
      | ObjItem t b r \<Rightarrow>
          [\<lparr>rtype = Some (case t of None \<Rightarrow> ascii ''unknown'' | Some t' \<Rightarrow> t'),
            bbox = Some (case b of None \<Rightarrow> [] | Some b' \<Rightarrow> b'),
            res = r\<rparr>]
      | OtherItem \<Rightarrow> [])"

text \<open>The sort key: \<open>(bbox[1], bbox[0])\<close>, each 0 when the box is absent or too short.\<close>

definition sort_position :: "region \<Rightarrow> int \<times> int" where
  "sort_position x =
     (case bbox x of
        None \<Rightarrow> (0, 0)
      | Some b \<Rightarrow> (if length b \<ge> 2 then b ! 1 else 0, if length b \<ge> 1 then b ! 0 else 0))"

definition field_text :: "ocr_field \<Rightarrow> pystr" where
  "field_text f = (case f of Field (Some (t # _)) _ \<Rightarrow> t | Field _ s \<Rightarrow> s)"

definition res_text_parts :: "line_result list \<Rightarrow> pystr list" where
  "res_text_parts ls =
     concat (map (\<lambda>l. case l of
                        LineSeq fs \<Rightarrow> (if length fs \<ge> 2 then [field_text (fs ! 1)] else [])
                      | LineOther \<Rightarrow> []) ls)"

definition res_ocr_text :: "region \<Rightarrow> pystr" where
  "res_ocr_text r =
     (case res r of
        None \<Rightarrow> []
      | Some ls \<Rightarrow> if ls = [] then [] else py_join [10] (res_text_parts ls))"

definition manual_ocr_text :: "env \<Rightarrow> path \<Rightarrow> int \<times> int \<times> int \<times> int \<Rightarrow> pystr" where
  "manual_ocr_text e image_path box =
     (case ocr e image_path box of
        OcrRaised \<Rightarrow> []
      | OcrResult [] \<Rightarrow> []
      | OcrResult (None # _) \<Rightarrow> []
      | OcrResult (Some ls # _) \<Rightarrow>
          py_join [10] (concat (map (\<lambda>l. if length l \<ge> 2 then [field_text (l ! 1)] else []) ls)))"

definition caption_of :: "pystr \<Rightarrow> pystr" where
  "caption_of region_type =
     (if region_type = ascii ''figure'' then [22270]
      else if region_type = ascii ''image'' then [22270, 29255]
      else if region_type = ascii ''formula'' then [20844, 24335]
      else [22270, 29255])"

definition figure_markup :: "pystr \<Rightarrow> pystr \<Rightarrow> pystr" where
  "figure_markup latex_path caption =
     [10] @ cmd ''begin{figure}[h]'' @ [10] @ cmd ''centering'' @ [10] @
     cmd ''includegraphics[width=0.8'' @ cmd ''textwidth]{'' @ latex_path @ ascii ''}'' @ [10] @
     cmd ''caption{'' @ caption @ ascii ''}'' @ [10] @ cmd ''end{figure}'' @ [10]"

record page_state =
  region_index :: nat
  latex_parts :: "pystr list"
  pworld :: world

text \<open>
  The text of a text or title region: the lines of the layout result, or, when those are
  blank, the OCR of the clamped crop. Unpacking the box raises outside any handler.
\<close>

definition region_ocr_text :: "env \<Rightarrow> path \<Rightarrow> nat list \<Rightarrow> region \<Rightarrow> int list \<Rightarrow> error + pystr" where
  "region_ocr_text e image_path shape r b =
     (let ocr_text = res_ocr_text r
      in if py_strip ocr_text = []
         then (case clamp_bbox shape b of
                 Inl err \<Rightarrow> Inl err
               | Inr (x1, y1, x2, y2) \<Rightarrow>
                   if x2 > x1 \<and> y2 > y1
                   then Inr (manual_ocr_text e image_path (x1, y1, x2, y2))
                   else Inr ocr_text)
         else Inr ocr_text)"

text \<open>One iteration of the loop over the sorted regions.\<close>

definition region_step ::
  "env \<Rightarrow> path \<Rightarrow> nat list \<Rightarrow> path \<Rightarrow> nat \<Rightarrow> page_state \<Rightarrow> region \<Rightarrow> error \<times> world + page_state" where
  "region_step e image_path shape output_dir page_index st r =
     (let region_type = (case rtype r of None \<Rightarrow> ascii ''unknown'' | Some t \<Rightarrow> t);
          b = (case bbox r of None \<Rightarrow> [] | Some b' \<Rightarrow> b')
      in if length b < 4 then Inr st
         else if region_type \<in> {ascii ''text'', ascii ''title''} then
           (case region_ocr_text e image_path shape r b of
              Inl err \<Rightarrow> Inl (err, pworld st)
            | Inr ocr_text \<Rightarrow>
                if py_strip ocr_text \<noteq> [] then
                  (let cleaned = clean_text_for_xml ocr_text;
                       processed_text = process_text_with_deepseek e cleaned;
                       w = pworld st
                   in Inr (st\<lparr>latex_parts := latex_parts st @ [processed_text],
                               pworld := w\<lparr>sent := sent w @ [cleaned]\<rparr>\<rparr>))
                else Inr st)
         else if region_type = ascii ''table'' then
           (case save_region_image e (Some shape) b region_type output_dir page_index
                   (region_index st) (pworld st) of
              (w', Some saved_path) \<Rightarrow>
                Inr (st\<lparr>latex_parts := latex_parts st @
                           [figure_markup (py_replace_char BS 47 saved_path) [34920, 26684]],
                         pworld := w', region_index := region_index st + 1\<rparr>)
            | (w', None) \<Rightarrow> Inr (st\<lparr>pworld := w', region_index := region_index st + 1\<rparr>))
         else if region_type \<in> {ascii ''figure'', ascii ''image'', ascii ''formula''} then
           (case save_region_image e (Some shape) b region_type output_dir page_index
                   (region_index st) (pworld st) of
              (w', Some saved_path) \<Rightarrow>
                Inr (st\<lparr>latex_parts := latex_parts st @
                           [figure_markup (py_replace_char BS 47 saved_path) (caption_of region_type)],
                         pworld := w', region_index := region_index st + 1\<rparr>)
            | (w', None) \<Rightarrow> Inr (st\<lparr>pworld := w', region_index := region_index st + 1\<rparr>))
         else Inr st)"

fun regions_loop ::
  "env \<Rightarrow> path \<Rightarrow> nat list \<Rightarrow> path \<Rightarrow> nat \<Rightarrow> page_state \<Rightarrow> region list \<Rightarrow> error \<times> world + page_state" where
  "regions_loop e image_path shape output_dir page_index st [] = Inr st"
| "regions_loop e image_path shape output_dir page_index st (r # rs) =
     (case region_step e image_path shape output_dir page_index st r of
        Inl err \<Rightarrow> Inl err
      | Inr st' \<Rightarrow> regions_loop e image_path shape output_dir page_index st' rs)"

definition processed_results :: "layout_out \<Rightarrow> region list" where
  "processed_results out =
     concat (map flatten_item
       (case out of LayoutList xs \<Rightarrow> xs | LayoutSingle x \<Rightarrow> [x] | LayoutRaised \<Rightarrow> []))"

definition sorted_results :: "layout_out \<Rightarrow> region list" where
  "sorted_results out = sort_key sort_position (processed_results out)"

definition process_single_image ::
  "env \<Rightarrow> path \<Rightarrow> path \<Rightarrow> nat \<Rightarrow> world \<Rightarrow> error \<times> world + world \<times> pystr" where
  "process_single_image e image_path output_dir page_index w =
     (case imread e image_path of
        None \<Rightarrow> Inr (w, [])
      | Some shape \<Rightarrow>
          (case structure_model e image_path of
             LayoutRaised \<Rightarrow> Inr (w, [])
           | out \<Rightarrow>
               (case regions_loop e image_path shape output_dir page_index
                       \<lparr>region_index = 0, latex_parts = [], pworld = w\<rparr> (sorted_results out) of
                  Inl err \<Rightarrow> Inl err
                | Inr st \<Rightarrow> Inr (pworld st, py_join [10, 10] (latex_parts st)))))"

section \<open>Regular expressions\<close>

text \<open>
  The patterns of the source are sequences of literals and of single character classes
  under \<open>+\<close>, \<open>*\<close> or \<open>*?\<close>, with at most one capturing group, and alternatives at top
  level only. \<open>rx\<close> is the backtracking matcher of \<open>re\<close> on such patterns: a greedy
  quantifier first tries one more character, a lazy one first tries to stop. It returns the
  length of the match and the span of group 1. \<open>\d\<close> is the decimal digits of Unicode 14.
\<close>

definition decimal_ranges :: "(nat \<times> nat) list" where
  "decimal_ranges =
     [(48, 57), (1632, 1641), (1776, 1785), (1984, 1993), (2406, 2415), (2534, 2543),
      (2662, 2671), (2790, 2799), (2918, 2927), (3046, 3055), (3174, 3183), (3302, 3311),
      (3430, 3439), (3558, 3567), (3664, 3673), (3792, 3801), (3872, 3881), (4160, 4169),
      (4240, 4249), (6112, 6121), (6160, 6169), (6470, 6479), (6608, 6617), (6784, 6793),
      (6800, 6809), (6992, 7001), (7088, 7097), (7232, 7241), (7248, 7257), (42528, 42537),
      (43216, 43225), (43264, 43273), (43472, 43481), (43504, 43513), (43600, 43609),
      (44016, 44025), (65296, 65305), (66720, 66729), (68912, 68921), (69734, 69743),
      (69872, 69881), (69942, 69951), (70096, 70105), (70384, 70393), (70736, 70745),
      (70864, 70873), (71248, 71257), (71360, 71369), (71472, 71481), (71904, 71913),
      (72016, 72025), (72784, 72793), (73040, 73049), (73120, 73129), (92768, 92777),
      (92864, 92873), (93008, 93017), (120782, 120831), (123200, 123209), (123632, 123641),
      (125264, 125273), (130032, 130041)]"

definition py_isdecimal :: "pychar \<Rightarrow> bool" where
  "py_isdecimal c \<longleftrightarrow> list_ex (\<lambda>(lo, hi). lo \<le> c \<and> c \<le> hi) decimal_ranges"

datatype cls = Digit | Space | AnyChar | NotNewline | NotRBrace | Letter | LowerLetter | Special

fun cls_match :: "cls \<Rightarrow> pychar \<Rightarrow> bool" where
  "cls_match Digit c = py_isdecimal c"
| "cls_match Space c = py_isspace c"
| "cls_match AnyChar c = True"
| "cls_match NotNewline c = (c \<noteq> 10)"
| "cls_match NotRBrace c = (c \<noteq> 125)"
| "cls_match Letter c = ((97 \<le> c \<and> c \<le> 122) \<or> (65 \<le> c \<and> c \<le> 90))"
| "cls_match LowerLetter c = (97 \<le> c \<and> c \<le> 122)"
| "cls_match Special c = (c \<in> {38, 37, 36, 35, 95, 123, 125})"

datatype item = Lit pystr | One cls | Plus cls | Star cls | LazyStar cls | GroupOpen | GroupClose

type_synonym regex = "item list list"

definition startswith :: "pystr \<Rightarrow> pystr \<Rightarrow> bool" where
  "startswith s p \<longleftrightarrow> take (length p) s = p"

fun py_in :: "pystr \<Rightarrow> pystr \<Rightarrow> bool" where
  "py_in p [] = (p = [])"
| "py_in p (x # xs) = (startswith (x # xs) p \<or> py_in p xs)"

fun rx :: "item list \<Rightarrow> pystr \<Rightarrow> nat \<Rightarrow> nat \<Rightarrow> (nat \<times> nat) option \<Rightarrow> (nat \<times> (nat \<times> nat) option) option" where
  "rx [] s n gs grp = Some (n, grp)"
| "rx (Lit l # rest) s n gs grp =
     (if startswith s l then rx rest (drop (length l) s) (n + length l) gs grp else None)"
| "rx (One c # rest) [] n gs grp = None"
| "rx (One c # rest) (x # xs) n gs grp =
     (if cls_match c x then rx rest xs (n + 1) gs grp else None)"
| "rx (Plus c # rest) [] n gs grp = None"
| "rx (Plus c # rest) (x # xs) n gs grp =
     (if cls_match c x then rx (Star c # rest) xs (n + 1) gs grp else None)"
| "rx (Star c # rest) [] n gs grp = rx rest [] n gs grp"
| "rx (Star c # rest) (x # xs) n gs grp =
     (if cls_match c x
      then (case rx (Star c # rest) xs (n + 1) gs grp of
              Some r \<Rightarrow> Some r
            | None \<Rightarrow> rx rest (x # xs) n gs grp)
      else rx rest (x # xs) n gs grp)"
| "rx (LazyStar c # rest) [] n gs grp = rx rest [] n gs grp"
| "rx (LazyStar c # rest) (x # xs) n gs grp =
     (case rx rest (x # xs) n gs grp of
        Some r \<Rightarrow> Some r
      | None \<Rightarrow> (if cls_match c x then rx (LazyStar c # rest) xs (n + 1) gs grp else None))"
| "rx (GroupOpen # rest) s n gs grp = rx rest s n n grp"
| "rx (GroupClose # rest) s n gs grp = rx rest s n gs (Some (gs, n))"

fun rx_alt :: "regex \<Rightarrow> pystr \<Rightarrow> (nat \<times> (nat \<times> nat) option) option" where
  "rx_alt [] s = None"
| "rx_alt (a # as) s = (case rx a s 0 0 None of Some r \<Rightarrow> Some r | None \<Rightarrow> rx_alt as s)"

definition group_text :: "pystr \<Rightarrow> (nat \<times> nat) option \<Rightarrow> pystr" where
  "group_text s grp = (case grp of None \<Rightarrow> [] | Some (a, b) \<Rightarrow> take (b - a) (drop a s))"

text \<open>\<open>re.search(r, s)\<close>: group 1 of the leftmost match, or None.\<close>

fun re_search :: "regex \<Rightarrow> pystr \<Rightarrow> pystr option" where
  "re_search r [] = None"
| "re_search r (x # xs) =
     (case rx_alt r (x # xs) of
        Some (n, grp) \<Rightarrow> Some (group_text (x # xs) grp)
      | None \<Rightarrow> re_search r xs)"

text \<open>
  A replacement template is parsed before the string is scanned: \<open>\\\<close> is a backslash,
  \<open>\1\<close> is group 1, and a backslash at the end of the template, or before another letter
  or digit, raises \<open>re.error\<close> (the templates of the source spell no other escape).
\<close>

datatype tpart = TLit pychar | TGroup

fun parse_template :: "pystr \<Rightarrow> error + tpart list" where
  "parse_template [] = Inr []"
| "parse_template [c] = (if c = BS then Inl ReError else Inr [TLit c])"
| "parse_template (c # d # s) =
     (if c = BS then
        (if d = BS then map_sum id ((#) (TLit BS)) (parse_template s)
         else if d = 49 then map_sum id ((#) TGroup) (parse_template s)
         else if cls_match Letter d \<or> (48 \<le> d \<and> d \<le> 57) then Inl ReError
         else map_sum id (\<lambda>t. TLit c # TLit d # t) (parse_template s))
      else map_sum id ((#) (TLit c)) (parse_template (d # s)))"

definition expand :: "tpart list \<Rightarrow> pystr \<Rightarrow> pystr" where
  "expand t g = concat (map (\<lambda>p. case p of TLit c \<Rightarrow> [c] | TGroup \<Rightarrow> g) t)"

text \<open>
  \<open>re.sub\<close> and \<open>re.split\<close> scan from the left and resume after each match; every pattern
  of the source starts with a literal backslash, so no match is empty.
\<close>

fun rx_sub :: "regex \<Rightarrow> tpart list \<Rightarrow> pystr \<Rightarrow> pystr" where
  "rx_sub r t [] = []"
| "rx_sub r t (x # xs) =
     (case rx_alt r (x # xs) of
        Some (Suc k, grp) \<Rightarrow> expand t (group_text (x # xs) grp) @ rx_sub r t (drop k xs)
      | _ \<Rightarrow> x # rx_sub r t xs)"

definition re_sub :: "regex \<Rightarrow> pystr \<Rightarrow> pystr \<Rightarrow> error + pystr" where
  "re_sub r template s =
     (case parse_template template of Inl err \<Rightarrow> Inl err | Inr t \<Rightarrow> Inr (rx_sub r t s))"

fun sub_chain :: "(regex \<times> pystr) list \<Rightarrow> pystr \<Rightarrow> error + pystr" where
  "sub_chain [] s = Inr s"
| "sub_chain ((r, template) # rest) s =
     (case re_sub r template s of Inl err \<Rightarrow> Inl err | Inr s' \<Rightarrow> sub_chain rest s')"

text \<open>\<open>re.split\<close> with the whole pattern as its one group: the matched texts are kept.\<close>

fun rx_split :: "regex \<Rightarrow> pystr \<Rightarrow> pystr \<Rightarrow> pystr list" where
  "rx_split r seg [] = [seg]"
| "rx_split r seg (x # xs) =
     (case rx_alt r (x # xs) of
        Some (Suc k, grp) \<Rightarrow> seg # take (Suc k) (x # xs) # rx_split r [] (drop k xs)
      | _ \<Rightarrow> rx_split r (seg @ [x]) xs)"

definition re_split :: "regex \<Rightarrow> pystr \<Rightarrow> pystr list" where
  "re_split r s = rx_split r [] s"

fun split_on :: "pychar \<Rightarrow> pystr \<Rightarrow> pystr list" where
  "split_on c [] = [[]]"
| "split_on c (x # xs) =
     (if x = c then [] # split_on c xs
      else (case split_on c xs of [] \<Rightarrow> [[x]] | y # ys \<Rightarrow> (x # y) # ys))"

subsection \<open>The patterns of the exporter\<close>

definition PAGE_HEADER :: regex where
  "PAGE_HEADER = [[Lit (cmd ''subsection{'' @ [31532, 32]), GroupOpen, Plus Digit, GroupClose,
                   Lit ([32, 39029] @ ascii ''}'')]]"

definition PAGE_HEADER_LINE :: regex where
  "PAGE_HEADER_LINE = [[Lit (cmd ''subsection{'' @ [31532, 32]), Plus Digit,
                        Lit ([32, 39029] @ ascii ''}''), Star Space, Lit [10], Star Space]]"

definition FIGURE_ENV :: "item list" where
  "FIGURE_ENV = [Lit (cmd ''begin{figure}''), LazyStar AnyChar, Lit (cmd ''end{figure}'')]"

definition command_with_arg :: "string \<Rightarrow> item list" where
  "command_with_arg name =
     [Lit (cmd name @ ascii ''{''), GroupOpen, Plus NotRBrace, GroupClose, Lit (ascii ''}'')]"

definition BLOCKS3 :: regex where
  "BLOCKS3 = [FIGURE_ENV, command_with_arg ''section'', command_with_arg ''subsection'']"

definition BLOCKS4 :: regex where
  "BLOCKS4 = [FIGURE_ENV, command_with_arg ''section'', command_with_arg ''subsection'',
              command_with_arg ''subsubsection'']"

definition INCLUDEGRAPHICS :: regex where
  "INCLUDEGRAPHICS = [[Lit (cmd ''includegraphics''), LazyStar NotNewline, Lit (ascii ''{''),
                       GroupOpen, Plus NotRBrace, GroupClose, Lit (ascii ''}'')]]"

definition CAPTION :: regex where
  "CAPTION = [command_with_arg ''caption'']"

definition ESCAPED_SPECIAL :: regex where
  "ESCAPED_SPECIAL = [[Lit [BS], GroupOpen, One Special, GroupClose]]"

definition TEXTBACKSLASH :: regex where
  "TEXTBACKSLASH = [[Lit (cmd ''textbackslash'')]]"

definition ANY_COMMAND_WITH_ARG :: regex where
  "ANY_COMMAND_WITH_ARG = [[Lit [BS], Plus Letter, Lit (ascii ''{''), GroupOpen, Plus NotRBrace,
                            GroupClose, Lit (ascii ''}'')]]"

definition LOWER_COMMAND_WITH_ARG :: regex where
  "LOWER_COMMAND_WITH_ARG = [[Lit [BS], Plus LowerLetter, Lit (ascii ''{''), GroupOpen,
                              Plus NotRBrace, GroupClose, Lit (ascii ''}'')]]"

definition ANY_COMMAND :: regex where
  "ANY_COMMAND = [[Lit [BS], Plus Letter]]"

section \<open>Paths\<close>

text \<open>
  A \<open>pathlib\<close> path is the list of its parts, the root \<open>/\<close> being a part of its own; the
  separator is that of POSIX.
\<close>

definition os_sep :: pychar where
  "os_sep = 47"

definition path_name :: "path \<Rightarrow> pystr" where
  "path_name p = (if p = [] \<or> p = [[47]] then [] else last p)"

definition path_parent :: "path \<Rightarrow> path" where
  "path_parent p = (if p = [[47]] then p else butlast p)"

definition path_parts :: "pystr \<Rightarrow> path" where
  "path_parts s = filter (\<lambda>p. p \<noteq> [] \<and> p \<noteq> [46]) (split_on 47 s)"

definition path_join :: "path \<Rightarrow> pystr \<Rightarrow> path" where
  "path_join p s = (if startswith s [47] then [47] # path_parts s else p @ path_parts s)"

definition rfind :: "pychar \<Rightarrow> pystr \<Rightarrow> nat option" where
  "rfind c s =
     (if c \<in> set s then Some (length s - 1 - length (takeWhile (\<lambda>x. x \<noteq> c) (rev s))) else None)"

definition py_suffix :: "pystr \<Rightarrow> pystr" where
  "py_suffix name =
     (case rfind 46 name of
        None \<Rightarrow> []
      | Some i \<Rightarrow> if 0 < i \<and> i < length name - 1 then drop i name else [])"

definition with_suffix :: "path \<Rightarrow> pystr \<Rightarrow> error + path" where
  "with_suffix p suffix =
     (let name = path_name p
      in if name = [] then Inl ValueError
         else Inr (butlast p @ [take (length name - length (py_suffix name)) name @ suffix]))"

definition copy_file :: "path \<Rightarrow> path \<Rightarrow> world \<Rightarrow> world" where
  "copy_file src dst w = write_file dst (CopyOf src) w"

text \<open>
  \<open>with open(p, 'w', encoding='utf-8') as f: f.write(s)\<close>. Opening creates or empties
  the file. The text is encoded before a byte is written, and a lone surrogate cannot be
  encoded: the file stays empty. Any other failure of the write leaves the file incomplete.
\<close>

definition utf8_encodable :: "pystr \<Rightarrow> bool" where
  "utf8_encodable s \<longleftrightarrow> list_all (\<lambda>c. \<not> (55296 \<le> c \<and> c \<le> 57343)) s"

definition write_text :: "env \<Rightarrow> path \<Rightarrow> pystr \<Rightarrow> world \<Rightarrow> error \<times> world + world" where
  "write_text e p s w =
     (if open_raises e p then Inl (OSError, w)
      else if \<not> utf8_encodable s then Inl (UnicodeEncodeError, write_file p (TextFile []) w)
      else if write_raises e p then Inl (OSError, write_file p Incomplete w)
      else Inr (write_file p (TextFile s) w))"

section \<open>The exporters\<close>

text \<open>
  The docx branch of \<open>process_all_images\<close> contains the statement \<open>import re\<close>, so
  \<open>re\<close> is a local name of that function, bound only once that statement has run. The
  html and the pdf branch run before it: their first use of \<open>re\<close>, the search for the
  page heading, raises UnboundLocalError. The page functions of these two branches take
  the state of the name as their first argument.
\<close>

text \<open>Loops whose body may raise: the first exception ends the loop.\<close>

fun each :: "('a \<Rightarrow> error + 'b list) \<Rightarrow> 'a list \<Rightarrow> error + 'b list" where
  "each f [] = Inr []"
| "each f (x # xs) =
     (case f x of
        Inl err \<Rightarrow> Inl err
      | Inr ys \<Rightarrow> (case each f xs of Inl err \<Rightarrow> Inl err | Inr zs \<Rightarrow> Inr (ys @ zs)))"

fun each_w :: "(world \<Rightarrow> 'a \<Rightarrow> error \<times> world + world \<times> 'b list) \<Rightarrow> world \<Rightarrow> 'a list \<Rightarrow>
    error \<times> world + world \<times> 'b list" where
  "each_w f w [] = Inr (w, [])"
| "each_w f w (x # xs) =
     (case f w x of
        Inl err \<Rightarrow> Inl err
      | Inr (w', ys) \<Rightarrow>
          (case each_w f w' xs of Inl err \<Rightarrow> Inl err | Inr (w'', zs) \<Rightarrow> Inr (w'', ys @ zs)))"

text \<open>The page heading of a page body, and the body without its heading lines.\<close>

definition page_header :: "pystr \<Rightarrow> pystr option \<times> pystr" where
  "page_header page_content =
     (case re_search PAGE_HEADER page_content of
        None \<Rightarrow> (None, page_content)
      | Some n \<Rightarrow> (Some n, rx_sub PAGE_HEADER_LINE [] page_content))"

definition page_title :: "pystr \<Rightarrow> pystr" where
  "page_title n = [31532, 32] @ n @ [32, 39029]"

definition document_title :: pystr where
  "document_title = [25991, 26723, 22788, 29702, 32467, 26524]"

subsection \<open>html\<close>

definition HTML_HEAD :: pystr where
  "HTML_HEAD =
     ascii ''<!DOCTYPE html>'' @ [10] @ ascii ''<html lang='' @ [34] @ ascii ''zh-CN'' @ [34] @
     ascii ''>'' @ [10] @ ascii ''<head>'' @ [10] @ ascii ''<meta charset='' @ [34] @
     ascii ''UTF-8'' @ [34] @ ascii ''>'' @ [10] @ ascii ''<title>'' @
     [25991, 26723, 22788, 29702, 32467, 26524] @ ascii ''</title>'' @ [10] @
     ascii ''<style>body{font-family:'' @ [34] @ ascii ''Microsoft YaHei'' @ [34] @
     ascii '',Arial;max-width:900px;margin:0 auto;padding:20px;line-heigh'' @
     ascii ''t:1.6}h1{color:#2c3e50;border-bottom:2px solid #3498db;paddi'' @
     ascii ''ng-bottom:10px}h2{color:#34495e;margin-top:30px}img{max-widt'' @
     ascii ''h:100%;height:auto;margin:20px 0;border:1px solid #ddd}p{mar'' @
     ascii ''gin:10px 0;text-indent:2em}</style>'' @ [10] @ ascii ''</head>'' @ [10] @
     ascii ''<body>'' @ [10] @ ascii ''<h1>'' @ [25991, 26723, 22788, 29702, 32467, 26524] @
     ascii ''</h1>'' @ [10]"

definition html_caption :: "pystr \<Rightarrow> pystr" where
  "html_caption c =
     ascii ''<p style='' @ [34] @ ascii ''text-align:center;font-style:italic;color:#666'' @
     [34] @ ascii ''>'' @ c @ ascii ''</p>'' @ [10]"

definition html_img :: "pystr \<Rightarrow> pystr" where
  "html_img name =
     ascii ''<img src='' @ [34] @ name @ [34] @ ascii '' alt='' @ [34, 22270, 29255, 34] @
     ascii ''>'' @ [10]"

definition html_figure :: "env \<Rightarrow> path \<Rightarrow> path \<Rightarrow> world \<Rightarrow> pystr \<Rightarrow> error \<times> world + world \<times> pystr list" where
  "html_figure e output_dir output_parent w block =
     (let caption = (case re_search CAPTION block of None \<Rightarrow> [] | Some c \<Rightarrow> [html_caption c])
      in case re_search INCLUDEGRAPHICS block of
           None \<Rightarrow> Inr (w, caption)
         | Some g \<Rightarrow>
             (let img_rel_path = py_replace_char 47 os_sep g;
                  img_path = path_join output_dir img_rel_path
              in if exists_on_disk e w img_path then
                   (let img_output_path =
                          path_join output_parent (py_replace_char os_sep 95 img_rel_path)
                    in if copy_raises e img_path img_output_path then Inl (OSError, w)
                       else Inr (copy_file img_path img_output_path w,
                                 [html_img (path_name img_output_path)] @ caption))
                 else Inr (w, caption)))"

definition html_subs :: "(regex \<times> pystr) list" where
  "html_subs =
     [([command_with_arg ''textbf''], ascii ''<strong>'' @ cmd ''1</strong>''),
      ([command_with_arg ''textit''], ascii ''<em>'' @ cmd ''1</em>''),
      (ESCAPED_SPECIAL, cmd ''1''),
      (TEXTBACKSLASH, [BS]),
      (ANY_COMMAND_WITH_ARG, cmd ''1''),
      (ANY_COMMAND, [])]"

definition html_line :: "pystr \<Rightarrow> error + pystr list" where
  "html_line l =
     (let line = py_strip l
      in if line = [] \<or> (startswith line [BS] \<and> \<not> startswith line (cmd ''text'')) then Inr []
         else (case sub_chain html_subs line of
                 Inl err \<Rightarrow> Inl err
               | Inr text \<Rightarrow>
                   if py_strip text \<noteq> [] then Inr [ascii ''<p>'' @ py_strip text @ ascii ''</p>'' @ [10]]
                   else Inr []))"

definition html_heading :: "string \<Rightarrow> string \<Rightarrow> pystr \<Rightarrow> error + pystr list" where
  "html_heading name tag block =
     (case re_sub [command_with_arg name] (cmd ''1'') block of
        Inl err \<Rightarrow> Inl err
      | Inr title_text \<Rightarrow>
          Inr [ascii ''<'' @ ascii tag @ ascii ''>'' @ py_strip title_text @
               ascii ''</'' @ ascii tag @ ascii ''>'' @ [10]])"

definition lift_w :: "world \<Rightarrow> error + 'a \<Rightarrow> error \<times> world + world \<times> 'a" where
  "lift_w w r = (case r of Inl err \<Rightarrow> Inl (err, w) | Inr x \<Rightarrow> Inr (w, x))"

definition html_block :: "env \<Rightarrow> path \<Rightarrow> path \<Rightarrow> world \<Rightarrow> pystr \<Rightarrow> error \<times> world + world \<times> pystr list" where
  "html_block e output_dir output_parent w block =
     (if py_strip block = [] then Inr (w, [])
      else if py_in (cmd ''begin{figure}'') block then html_figure e output_dir output_parent w block
      else if startswith block (cmd ''section{'') then lift_w w (html_heading ''section'' ''h2'' block)
      else if startswith block (cmd ''subsection{'') then lift_w w (html_heading ''subsection'' ''h3'' block)
      else lift_w w (each html_line (split_on 10 block)))"

definition html_page ::
  "bool \<Rightarrow> env \<Rightarrow> path \<Rightarrow> path \<Rightarrow> world \<Rightarrow> pystr \<Rightarrow> error \<times> world + world \<times> pystr list" where
  "html_page re_bound e output_dir output_parent w page_content =
     (if \<not> re_bound then Inl (UnboundLocalError, w)
      else (case page_header page_content of
              (page_match, content) \<Rightarrow>
                (case each_w (html_block e output_dir output_parent) w (re_split BLOCKS3 content) of
                   Inl err \<Rightarrow> Inl err
                 | Inr (w', parts) \<Rightarrow>
                     Inr (w', (case page_match of
                                  None \<Rightarrow> []
                                | Some n \<Rightarrow> [ascii ''<h2>'' @ page_title n @ ascii ''</h2>'' @ [10]]) @
                              parts))))"

definition html_export :: "env \<Rightarrow> world \<Rightarrow> pystr list \<Rightarrow> path \<Rightarrow> path \<Rightarrow> error \<times> world + world \<times> path" where
  "html_export e w all_latex_content output_path output_dir =
     (case each_w (html_page False e output_dir (path_parent output_path)) w all_latex_content of
        Inl err \<Rightarrow> Inl err
      | Inr (w', parts) \<Rightarrow>
          (let html_content = concat ([HTML_HEAD] @ parts @ [ascii ''</body>'' @ [10] @ ascii ''</html>''])
           in case with_suffix output_path (ascii ''.html'') of
                Inl err \<Rightarrow> Inl (err, w')
              | Inr html_path \<Rightarrow>
                  (case write_text e html_path html_content w' of
                     Inl err \<Rightarrow> Inl err
                   | Inr w'' \<Rightarrow> Inr (w'', html_path))))"

subsection \<open>The document builder\<close>

text \<open>
  \<open>python-docx\<close> hands the text of a paragraph or heading to \<open>lxml\<close>, after taking tabs
  and line ends out of it; \<open>lxml\<close> raises ValueError for a text that is not XML
  compatible: one with a control character below 0x20, with U+FFFE or U+FFFF, or with a
  surrogate.
\<close>

definition xml_compatible :: "pystr \<Rightarrow> bool" where
  "xml_compatible s \<longleftrightarrow>
     list_all (\<lambda>c. c \<in> {9, 10, 13} \<or>
                    (32 \<le> c \<and> c \<noteq> 65534 \<and> c \<noteq> 65535 \<and> \<not> (55296 \<le> c \<and> c \<le> 57343))) s"

definition add_paragraph :: "pystr \<Rightarrow> error + docx_elem list" where
  "add_paragraph text = (if xml_compatible text then Inr [Paragraph text] else Inl ValueError)"

definition add_heading :: "pystr \<Rightarrow> nat \<Rightarrow> error + docx_elem list" where
  "add_heading text level = (if xml_compatible text then Inr [Heading text level] else Inl ValueError)"

text \<open>The elements of a page: its heading, if it has one, its blocks, and a page break.\<close>

definition page_elems :: "pystr option \<Rightarrow> error + docx_elem list \<Rightarrow> error + docx_elem list" where
  "page_elems page_match blocks =
     (case (case page_match of None \<Rightarrow> Inr [] | Some n \<Rightarrow> add_heading (page_title n) 2) of
        Inl err \<Rightarrow> Inl err
      | Inr heading \<Rightarrow>
          (case blocks of
             Inl err \<Rightarrow> Inl err
           | Inr elems \<Rightarrow> Inr (heading @ elems @ [PageBreak])))"

text \<open>
  The finished document: the title, then the pages, saved at a path. \<open>doc.save\<close> opens
  the file for writing, which creates or empties it, and then writes the package; a failure
  after the opening leaves the file incomplete.
\<close>

definition save_document ::
  "env \<Rightarrow> world \<Rightarrow> error + docx_elem list \<Rightarrow> path \<Rightarrow> error \<times> world + world \<times> path" where
  "save_document e w pages p =
     (case add_heading document_title 0 of
        Inl err \<Rightarrow> Inl (err, w)
      | Inr title \<Rightarrow>
          (case pages of
             Inl err \<Rightarrow> Inl (err, w)
           | Inr elems \<Rightarrow>
               if open_raises e p then Inl (OSError, w)
               else if save_raises e p then Inl (OSError, write_file p Incomplete w)
               else Inr (write_file p (DocxFile (title @ elems)) w, p)))"

subsection \<open>pdf (an intermediate Word document)\<close>

definition pdf_subs :: "(regex \<times> pystr) list" where
  "pdf_subs = [(ANY_COMMAND_WITH_ARG, cmd ''1''), (ANY_COMMAND, [])]"

definition pdf_line :: "pystr \<Rightarrow> error + docx_elem list" where
  "pdf_line l =
     (let line = py_strip l
      in if line \<noteq> [] \<and> \<not> startswith line [BS] then
           (case sub_chain pdf_subs line of
              Inl err \<Rightarrow> Inl err
            | Inr text \<Rightarrow> if py_strip text \<noteq> [] then add_paragraph (py_strip text) else Inr [])
         else Inr [])"

definition pdf_figure :: "env \<Rightarrow> path \<Rightarrow> world \<Rightarrow> pystr \<Rightarrow> docx_elem list" where
  "pdf_figure e output_dir w block =
     (case re_search INCLUDEGRAPHICS block of
        None \<Rightarrow> []
      | Some g \<Rightarrow>
          (let img_path = path_join output_dir (py_replace_char 47 os_sep g)
           in if exists_on_disk e w img_path then
                (if add_picture_raises e img_path then [] else [Picture img_path])
              else []))"

definition pdf_block :: "env \<Rightarrow> path \<Rightarrow> world \<Rightarrow> pystr \<Rightarrow> error + docx_elem list" where
  "pdf_block e output_dir w block =
     (if py_strip block = [] then Inr []
      else if py_in (cmd ''begin{figure}'') block then Inr (pdf_figure e output_dir w block)
      else if startswith block (cmd ''section{'') \<or> startswith block (cmd ''subsection{'') then
        (case re_sub LOWER_COMMAND_WITH_ARG (cmd ''1'') block of
           Inl err \<Rightarrow> Inl err
         | Inr title_text \<Rightarrow>
             add_heading (py_strip title_text) (if py_in (ascii ''sub'') block then 2 else 1))
      else each pdf_line (split_on 10 block))"

definition pdf_page :: "bool \<Rightarrow> env \<Rightarrow> path \<Rightarrow> world \<Rightarrow> pystr \<Rightarrow> error + docx_elem list" where
  "pdf_page re_bound e output_dir w page_content =
     (if \<not> re_bound then Inl UnboundLocalError
      else (case page_header page_content of
              (page_match, content) \<Rightarrow>
                page_elems page_match (each (pdf_block e output_dir w) (re_split BLOCKS3 content))))"

definition pdf_export :: "env \<Rightarrow> world \<Rightarrow> pystr list \<Rightarrow> path \<Rightarrow> path \<Rightarrow> error \<times> world + world \<times> path" where
  "pdf_export e w all_latex_content output_path output_dir =
     (if \<not> docx_available e then Inl (ImportError, w)
      else (case with_suffix output_path (ascii ''.docx'') of
              Inl err \<Rightarrow> Inl (err, w)
            | Inr temp_docx \<Rightarrow>
                save_document e w (each (pdf_page False e output_dir w) all_latex_content) temp_docx))"

subsection \<open>docx\<close>

definition docx_subs :: "(regex \<times> pystr) list" where
  "docx_subs =
     [([command_with_arg ''textbf''], cmd ''1''),
      ([command_with_arg ''textit''], cmd ''1''),
      ([command_with_arg ''emph''], cmd ''1''),
      ([command_with_arg ''text''], cmd ''1''),
      (ESCAPED_SPECIAL, cmd ''1''),
      (TEXTBACKSLASH, [BS, BS]),
      (ANY_COMMAND_WITH_ARG, cmd ''1''),
      (ANY_COMMAND, [])]"

definition docx_line :: "pystr \<Rightarrow> error + docx_elem list" where
  "docx_line l =
     (let line = py_strip l
      in if line = [] then Inr [Paragraph []]
         else if startswith line [BS] \<and> \<not> startswith line (cmd ''text'') then Inr []
         else if startswith line (ascii ''|'') \<or> py_in (cmd ''begin{table}'') line then add_paragraph line
         else (case sub_chain docx_subs line of
                 Inl err \<Rightarrow> Inl err
               | Inr text \<Rightarrow> if py_strip text \<noteq> [] then add_paragraph (py_strip text) else Inr []))"

text \<open>
  The picture and its caption are added inside one \<open>try\<close>, under the test that the file
  exists; its handler adds a placeholder paragraph after whatever the \<open>try\<close> had added.
\<close>

definition docx_figure :: "env \<Rightarrow> path \<Rightarrow> world \<Rightarrow> pystr \<Rightarrow> error + docx_elem list" where
  "docx_figure e output_dir w block =
     (case re_search INCLUDEGRAPHICS block of
        None \<Rightarrow> Inr []
      | Some g \<Rightarrow>
          (let img_rel_path = py_replace_char 47 os_sep g;
               img_path = path_join output_dir img_rel_path;
               placeholder = add_paragraph (ascii ''['' @ [22270, 29255] @ ascii '': '' @ img_rel_path @ ascii '']'')
           in if exists_on_disk e w img_path then
                (if add_picture_raises e img_path then placeholder
                 else (case re_search CAPTION block of
                         None \<Rightarrow> Inr [Picture img_path]
                       | Some c \<Rightarrow>
                           if xml_compatible c then Inr [Picture img_path, CaptionParagraph c]
                           else map_sum id (\<lambda>ph. Picture img_path # failed_paragraph e c @ ph)
                                  placeholder))
              else Inr []))"

definition docx_heading :: "string \<Rightarrow> nat \<Rightarrow> pystr \<Rightarrow> error + docx_elem list" where
  "docx_heading name level block =
     (case re_sub [command_with_arg name] (cmd ''1'') block of
        Inl err \<Rightarrow> Inl err
      | Inr title_text \<Rightarrow> add_heading (py_strip title_text) level)"

definition docx_block :: "env \<Rightarrow> path \<Rightarrow> world \<Rightarrow> pystr \<Rightarrow> error + docx_elem list" where
  "docx_block e output_dir w block =
     (if py_strip block = [] then Inr []
      else if py_in (cmd ''begin{figure}'') block then docx_figure e output_dir w block
      else if startswith block (cmd ''section{'') then docx_heading ''section'' 1 block
      else if startswith block (cmd ''subsection{'') then docx_heading ''subsection'' 2 block
      else if startswith block (cmd ''subsubsection{'') then docx_heading ''subsubsection'' 3 block
      else each docx_line (split_on 10 block))"

definition docx_page :: "env \<Rightarrow> path \<Rightarrow> world \<Rightarrow> pystr \<Rightarrow> error + docx_elem list" where
  "docx_page e output_dir w page_content =
     (case page_header page_content of
        (page_match, content) \<Rightarrow>
          page_elems page_match (each (docx_block e output_dir w) (re_split BLOCKS4 content)))"

definition docx_export :: "env \<Rightarrow> world \<Rightarrow> pystr list \<Rightarrow> path \<Rightarrow> path \<Rightarrow> error \<times> world + world \<times> path" where
  "docx_export e w all_latex_content output_path output_dir =
     (if \<not> docx_available e then Inl (ImportError, w)
      else save_document e w (each (docx_page e output_dir w) all_latex_content) output_path)"

subsection \<open>tex\<close>

definition TEX_PREAMBLE :: pystr where
  "TEX_PREAMBLE = concat (map (\<lambda>l. l @ [10])
     [cmd ''documentclass[12pt]{article}'',
      cmd ''usepackage[utf8]{inputenc}'',
      cmd ''usepackage{graphicx}'',
      cmd ''usepackage{float}'',
      cmd ''usepackage{amsmath}'',
      cmd ''usepackage{amsfonts}'',
      cmd ''usepackage{amssymb}'',
      cmd ''usepackage{booktabs}'',
      cmd ''usepackage{array}'',
      cmd ''usepackage{longtable}'',
      cmd ''usepackage{xcolor}'',
      cmd ''usepackage{geometry}'',
      cmd ''geometry{a4paper, margin=2.5cm}'',
      [],
      cmd ''title{'' @ [25991, 26723, 22788, 29702, 32467, 26524] @ ascii ''}'',
      cmd ''author{'' @ [33258, 21160, 29983, 25104] @ ascii ''}'',
      cmd ''date{'' @ cmd ''today}'',
      [],
      cmd ''begin{document}'',
      [],
      cmd ''maketitle'',
      []])"

definition TEX_END :: pystr where
  "TEX_END = [10, 10] @ cmd ''end{document}''"

definition tex_export :: "env \<Rightarrow> world \<Rightarrow> pystr \<Rightarrow> path \<Rightarrow> error \<times> world + world \<times> path" where
  "tex_export e w body_content output_path =
     (let latex_document = TEX_PREAMBLE @ body_content @ TEX_END
      in case with_suffix output_path (ascii ''.tex'') of
           Inl err \<Rightarrow> Inl (err, w)
         | Inr latex_path \<Rightarrow>
             (case write_text e latex_path latex_document w of
                Inl err \<Rightarrow> Inl err
              | Inr w1 \<Rightarrow>
                  (case with_suffix output_path (ascii ''.tex.content'') of
                     Inl err \<Rightarrow> Inl (err, w1)
                   | Inr content_path \<Rightarrow>
                       (case write_text e content_path body_content w1 of
                          Inl err \<Rightarrow> Inl err
                        | Inr w2 \<Rightarrow> Inr (w2, latex_path)))))"

section \<open>process_all_images\<close>

text \<open>
  The three consecutive statements after the body is assembled: \<open>if html ... elif pdf\<close>,
  then \<open>if docx\<close>, then \<open>if tex\<close>. A failed stage assigns \<open>output_format\<close> and falls through
  to the statements below it; a function that reaches its end returns None.
\<close>

definition return_path :: "world \<times> path \<Rightarrow> error \<times> world + world \<times> path option" where
  "return_path r = Inr (fst r, Some (snd r))"

definition tex_stage :: "env \<Rightarrow> world \<Rightarrow> pystr \<Rightarrow> path \<Rightarrow> pystr \<Rightarrow> error \<times> world + world \<times> path option" where
  "tex_stage e w body_content output_path output_format =
     (if output_format = ascii ''tex'' then
        (case tex_export e w body_content output_path of
           Inl err \<Rightarrow> Inl err
         | Inr r \<Rightarrow> return_path r)
      else Inr (w, None))"

definition docx_stage ::
  "env \<Rightarrow> world \<Rightarrow> pystr list \<Rightarrow> pystr \<Rightarrow> path \<Rightarrow> path \<Rightarrow> pystr \<Rightarrow> error \<times> world + world \<times> path option" where
  "docx_stage e w all_latex_content body_content output_path output_dir output_format =
     (if output_format = ascii ''docx'' then
        (case docx_export e w all_latex_content output_path output_dir of
           Inr r \<Rightarrow> return_path r
         | Inl (err, w') \<Rightarrow> tex_stage e w' body_content output_path (ascii ''tex''))
      else tex_stage e w body_content output_path output_format)"

definition export ::
  "env \<Rightarrow> world \<Rightarrow> pystr list \<Rightarrow> pystr \<Rightarrow> path \<Rightarrow> path \<Rightarrow> pystr \<Rightarrow> error \<times> world + world \<times> path option" where
  "export e w all_latex_content body_content output_path output_dir output_format =
     (if output_format = ascii ''html'' then
        (case html_export e w all_latex_content output_path output_dir of
           Inr r \<Rightarrow> return_path r
         | Inl (err, w') \<Rightarrow>
             docx_stage e w' all_latex_content body_content output_path output_dir (ascii ''tex''))
      else if output_format = ascii ''pdf'' then
        (case pdf_export e w all_latex_content output_path output_dir of
           Inr r \<Rightarrow> return_path r
         | Inl (err, w') \<Rightarrow>
             docx_stage e w' all_latex_content body_content output_path output_dir (ascii ''html''))
      else docx_stage e w all_latex_content body_content output_path output_dir output_format)"

definition image_extensions :: "pystr list" where
  "image_extensions =
     [ascii ''.jpg'', ascii ''.jpeg'', ascii ''.png'', ascii ''.bmp'', ascii ''.tiff'', ascii ''.tif'']"

text \<open>
  \<open>str.lower\<close> on the letters A-Z; no other code point lowers to a string of ASCII
  letters, so membership in the extension set is the same.
\<close>

definition py_lower :: "pystr \<Rightarrow> pystr" where
  "py_lower s = map (\<lambda>c. if 65 \<le> c \<and> c \<le> 90 then c + 32 else c) s"

definition image_files :: "env \<Rightarrow> path \<Rightarrow> path list" where
  "image_files e input_folder =
     sort (filter (\<lambda>f. py_lower (py_suffix (path_name f)) \<in> set image_extensions)
             (iterdir e input_folder))"

definition page_section :: "nat \<Rightarrow> pystr \<Rightarrow> pystr" where
  "page_section page_index latex_content =
     cmd ''subsection{'' @ page_title (str_of_nat page_index) @ ascii ''}'' @ [10, 10] @ latex_content"

fun pages_loop :: "env \<Rightarrow> path \<Rightarrow> nat \<Rightarrow> world \<Rightarrow> path list \<Rightarrow> error \<times> world + world \<times> pystr list" where
  "pages_loop e output_dir page_index w [] = Inr (w, [])"
| "pages_loop e output_dir page_index w (image_file # fs) =
     (case process_single_image e image_file output_dir page_index w of
        Inl err \<Rightarrow> Inl err
      | Inr (w', latex_content) \<Rightarrow>
          (case pages_loop e output_dir (page_index + 1) w' fs of
             Inl err \<Rightarrow> Inl err
           | Inr (w'', rest) \<Rightarrow>
               Inr (w'', (if py_strip latex_content \<noteq> []
                          then [page_section page_index latex_content] else []) @ rest)))"

definition PAGE_BREAK :: pystr where
  "PAGE_BREAK = [10, 10] @ cmd ''newpage'' @ [10, 10]"

definition process_all_images ::
  "env \<Rightarrow> path \<Rightarrow> path \<Rightarrow> pystr \<Rightarrow> world \<Rightarrow> error \<times> world + world \<times> path option" where
  "process_all_images e input_folder output_path output_format w =
     (let output_dir = path_parent output_path @ [ascii ''processed_regions'']
      in if mkdir_raises e output_dir then Inl (OSError, w)
         else if image_files e input_folder = [] then Inr (w, None)
         else (case pages_loop e output_dir 1 w (image_files e input_folder) of
                 Inl err \<Rightarrow> Inl err
               | Inr (w', all_latex_content) \<Rightarrow>
                   export e w' all_latex_content (py_join PAGE_BREAK all_latex_content)
                     output_path output_dir output_format))"

section \<open>Notions used in the statements\<close>

text \<open>The world a call leaves behind, whether it returned or raised.\<close>

definition world_after :: "error \<times> world + world \<times> 'a \<Rightarrow> world" where
  "world_after r = (case r of Inl (_, w) \<Rightarrow> w | Inr (w, _) \<Rightarrow> w)"

text \<open>
  The reading position of a region with a well-formed box \<open>[x1, y1, x2, y2]\<close>: its top
  edge \<open>y1\<close> and its left edge \<open>x1\<close>.
\<close>

definition top_edge :: "region \<Rightarrow> int" where
  "top_edge r = the (bbox r) ! 1"

definition left_edge :: "region \<Rightarrow> int" where
  "left_edge r = the (bbox r) ! 0"

definition well_formed :: "region \<Rightarrow> bool" where
  "well_formed r \<longleftrightarrow> (case bbox r of Some [x1, y1, x2, y2] \<Rightarrow> True | _ \<Rightarrow> False)"

text \<open>
  Reading order, top to bottom and then left to right, and regions at one position.
\<close>

definition reading_order :: "region \<Rightarrow> region \<Rightarrow> bool" where
  "reading_order a b \<longleftrightarrow>
     top_edge a < top_edge b \<or> (top_edge a = top_edge b \<and> left_edge a \<le> left_edge b)"

definition same_position :: "region \<Rightarrow> region \<Rightarrow> bool" where
  "same_position a b \<longleftrightarrow> top_edge a = top_edge b \<and> left_edge a = left_edge b"

text \<open>The cleanup service failed: the request raised, or the status is not 200.\<close>

definition service_failed :: "http_out \<Rightarrow> bool" where
  "service_failed out \<longleftrightarrow> (case out of RequestRaised \<Rightarrow> True | Response status _ \<Rightarrow> status \<noteq> 200)"

text \<open>
  The fragments one region contributes when it is processed under a given region index
  (the world it is processed in has no part in them), the regions that take a region
  index, and the fragments of a list of regions processed in the order of the list.
\<close>

definition region_fragment ::
  "env \<Rightarrow> path \<Rightarrow> nat list \<Rightarrow> path \<Rightarrow> nat \<Rightarrow> nat \<Rightarrow> region \<Rightarrow> pystr list" where
  "region_fragment e image_path shape output_dir page_index ri r =
     (case region_step e image_path shape output_dir page_index
             \<lparr>region_index = ri, latex_parts = [],
              pworld = \<lparr>files = Map.empty, written = [], sent = []\<rparr>\<rparr> r of
        Inl _ \<Rightarrow> []
      | Inr st \<Rightarrow> latex_parts st)"

definition saves_image :: "region \<Rightarrow> bool" where
  "saves_image r \<longleftrightarrow>
     (case bbox r of None \<Rightarrow> False | Some b \<Rightarrow> length b \<ge> 4) \<and>
     (case rtype r of
        None \<Rightarrow> False
      | Some t \<Rightarrow> t \<in> {ascii ''table'', ascii ''figure'', ascii ''image'', ascii ''formula''})"

fun page_fragments ::
  "env \<Rightarrow> path \<Rightarrow> nat list \<Rightarrow> path \<Rightarrow> nat \<Rightarrow> nat \<Rightarrow> region list \<Rightarrow> pystr list" where
  "page_fragments e image_path shape output_dir page_index ri [] = []"
| "page_fragments e image_path shape output_dir page_index ri (r # rs) =
     region_fragment e image_path shape output_dir page_index ri r @
     page_fragments e image_path shape output_dir page_index
       (if saves_image r then ri + 1 else ri) rs"

section \<open>Example inputs\<close>

text \<open>
  The examples run on a disk that holds nothing but what the run has written, under
  paths spelled without \<open>..\<close>: a path exists when the run has written it.
\<close>

definition demo_text_region :: region where
  "demo_text_region =
     \<lparr>rtype = Some (ascii ''text''), bbox = Some [0, 0, 5, 5],
      res = Some [LineSeq [Field None [], Field (Some [[97, 1, 98]]) []]]\<rparr>"

definition demo_env :: env where
  "demo_env =
     \<lparr>imread = (\<lambda>_. Some [10, 10, 3]),
      structure_model = (\<lambda>_. LayoutList [DictItem demo_text_region]),
      ocr = (\<lambda>_ _. OcrRaised),
      post = (\<lambda>_. RequestRaised),
      mkdir_raises = (\<lambda>_. False),
      imwrite = (\<lambda>_. Written),
      iterdir = (\<lambda>_. [[ascii ''in'', ascii ''p.png'']]),
      docx_available = False,
      add_picture_raises = (\<lambda>_. False),
      save_raises = (\<lambda>_. False),
      failed_paragraph = (\<lambda>_. []),
      open_raises = (\<lambda>_. False),
      write_raises = (\<lambda>_. False),
      copy_raises = (\<lambda>_ _. False),
      exists_on_disk = (\<lambda>w p. files w p \<noteq> None)\<rparr>"

definition empty_world :: world where
  "empty_world = \<lparr>files = Map.empty, written = [], sent = []\<rparr>"

definition demo_state :: page_state where
  "demo_state = \<lparr>region_index = 0, latex_parts = [], pworld = empty_world\<rparr>"

definition boxed :: "pystr \<Rightarrow> int list \<Rightarrow> region" where
  "boxed t b = \<lparr>rtype = Some t, bbox = Some b, res = None\<rparr>"

definition demo_figure_region :: region where
  "demo_figure_region = boxed (ascii ''figure'') [0, 0, 5, 5]"

definition failing_write_env :: env where
  "failing_write_env = demo_env\<lparr>imwrite := (\<lambda>_. NotWritten)\<rparr>"

definition folder :: path where
  "folder = [ascii ''in'']"
definition target :: "string \<Rightarrow> path" where
  "target ext = [ascii ''in'', ascii ''result'' @ ascii ext]"

definition demo_figure_block :: pystr where
  "demo_figure_block = figure_markup (ascii ''figure/page_1_region_0.jpg'') [22270]"

definition docx_env :: env where
  "docx_env = demo_env\<lparr>docx_available := True\<rparr>"

definition regions_dir :: path where
  "regions_dir = [ascii ''in'', ascii ''processed_regions'']"

definition text_region :: "pystr \<Rightarrow> int list \<Rightarrow> region" where
  "text_region t b =
     \<lparr>rtype = Some (ascii ''text''), bbox = Some b,
      res = Some [LineSeq [Field None [], Field (Some [t]) []]]\<rparr>"

definition reading_layout :: layout_out where
  "reading_layout =
     LayoutList [DictItem (text_region (ascii ''second'') [0, 50, 90, 60]),
                 DictItem (boxed (ascii ''figure'') [0, 20, 50, 40]),
                 DictItem (text_region (ascii ''first'') [0, 10, 90, 18]),
                 ObjItem (Some (ascii ''title'')) (Some [0, 50, 90, 60])
                   (Some [LineSeq [Field None [], Field (Some [ascii ''third'']) []]])]"

definition reading_env :: env where
  "reading_env = demo_env\<lparr>imread := (\<lambda>_. Some [100, 100, 3]),
                           structure_model := (\<lambda>_. reading_layout)\<rparr>"

section \<open>Properties of the page pipeline\<close>

subsection \<open>Decimal numerals\<close>

lemma str_of_nat_0: "str_of_nat 0 = ascii ''0''"
  by (simp add: str_of_nat.simps ascii_def)

lemma str_of_nat_1: "str_of_nat (Suc 0) = ascii ''1''"
  by (simp add: str_of_nat.simps ascii_def)

subsection \<open>Text regions\<close>

lemma clean_text_for_xml_no_ctrl: "c \<in> set (clean_text_for_xml t) \<Longrightarrow> \<not> is_ctrl c"
  by (auto simp: clean_text_for_xml_def split: if_splits)

lemma save_region_image_sent: "save_region_image e img b t od pi ri w = (w', p) \<Longrightarrow> sent w' = sent w"
  by (auto simp: save_region_image_def write_file_def Let_def
      split: option.splits sum.splits prod.splits write_out.splits if_splits)

lemma region_step_sent_Inr:
  assumes "region_step e ip sh od pi st r = Inr st'"
  shows "\<exists>new. sent (pworld st') = sent (pworld st) @ new \<and> (\<forall>t\<in>set new. \<forall>c\<in>set t. \<not> is_ctrl c)"
  using assms
  by (auto simp: region_step_def Let_def clean_text_for_xml_no_ctrl dest: save_region_image_sent split: if_splits sum.splits prod.splits option.splits)

lemma region_step_Inl:
  assumes "region_step e ip sh od pi st r = Inl (err, w)"
  shows "w = pworld st"
  using assms
  by (auto simp: region_step_def Let_def split: if_splits sum.splits prod.splits option.splits)

lemma regions_loop_sent:
  "\<exists>new. sent (world_after (case regions_loop e ip sh od pi st rs of Inl x \<Rightarrow> Inl x | Inr st' \<Rightarrow> Inr (pworld st', ()))) = sent (pworld st) @ new
      \<and> (\<forall>t\<in>set new. \<forall>c\<in>set t. \<not> is_ctrl c)"
proof (induction rs arbitrary: st)
  case Nil
  then show ?case by (simp add: world_after_def)
next
  case (Cons r rs)
  show ?case
  proof (cases "region_step e ip sh od pi st r")
    case (Inl x)
    then show ?thesis using region_step_Inl[of e ip sh od pi st r "fst x" "snd x"]
      by (cases x) (simp add: world_after_def)
  next
    case (Inr st1)
    from region_step_sent_Inr[OF Inr] obtain n1 where
      n1: "sent (pworld st1) = sent (pworld st) @ n1" "\<forall>t\<in>set n1. \<forall>c\<in>set t. \<not> is_ctrl c" by blast
    from Cons.IH[of st1] obtain n2 where
      n2: "sent (world_after (case regions_loop e ip sh od pi st1 rs of Inl x \<Rightarrow> Inl x | Inr st' \<Rightarrow> Inr (pworld st', ()))) = sent (pworld st1) @ n2"
          "\<forall>t\<in>set n2. \<forall>c\<in>set t. \<not> is_ctrl c" by blast
    show ?thesis
      by (rule exI[of _ "n1 @ n2"]) (use Inr n1 n2 in auto)
  qed
qed

text \<open>
  Claim C7. Whatever a page run submits to the cleanup service has been through
  \<open>clean_text_for_xml\<close> first: every text added to the log of submissions during
  \<open>process_single_image\<close>, whether the run returns or raises, contains no code point in
  0x00-0x08, 0x0B-0x0C or 0x0E-0x1F.
\<close>

theorem submitted_text_has_no_control_characters:
  "\<exists>new. sent (world_after (process_single_image e image_path output_dir page_index w)) = sent w @ new
         \<and> (\<forall>t\<in>set new. \<forall>c\<in>set t. \<not> is_ctrl c)"
proof (cases "imread e image_path")
  case None
  then show ?thesis by (simp add: process_single_image_def world_after_def)
next
  case (Some shape)
  show ?thesis
  proof (cases "structure_model e image_path = LayoutRaised")
    case True
    then show ?thesis using Some by (simp add: process_single_image_def world_after_def)
  next
    case False
    let ?st = "\<lparr>region_index = 0, latex_parts = [], pworld = w\<rparr>"
    let ?rs = "sorted_results (structure_model e image_path)"
    have eq: "world_after (process_single_image e image_path output_dir page_index w) =
          world_after (case regions_loop e image_path shape output_dir page_index ?st ?rs of
                         Inl x \<Rightarrow> Inl x | Inr st' \<Rightarrow> Inr (pworld st', ()))"
      using Some False
      by (cases "structure_model e image_path")
         (auto simp: process_single_image_def world_after_def split: sum.splits)
    show ?thesis
      using regions_loop_sent[of e image_path shape output_dir page_index ?st ?rs]
      unfolding eq by simp
  qed
qed

lemma demo_page_run: "process_single_image demo_env [ascii ''p.png''] [ascii ''out''] 1 empty_world
   = Inr (\<lparr>files = Map.empty, written = [], sent = [ascii ''ab'']\<rparr>, ascii ''ab'')"
  by (simp add: process_single_image_def demo_env_def sorted_results_def processed_results_def flatten_item_def
     demo_text_region_def region_step_def region_ocr_text_def res_ocr_text_def res_text_parts_def
     field_text_def py_strip_def py_isspace_def clean_text_for_xml_def is_ctrl_def process_text_with_deepseek_def
     empty_world_def ascii_def Let_def)

theorem submitted_text_has_no_control_characters_witness:
  "sent (world_after (process_single_image demo_env [ascii ''p.png''] [ascii ''out''] 1 empty_world)) = [[97, 98]]
   \<and> \<not> is_ctrl 97 \<and> \<not> is_ctrl 98"
  using submitted_text_has_no_control_characters [of demo_env "[ascii ''p.png'']" "[ascii ''out'']" 1 empty_world]
  unfolding demo_page_run world_after_def by (simp add: empty_world_def ascii_def)

text \<open>
  Claim C5. For a text or title region with non-blank text, when the cleanup service fails
  on the cleaned text (status other than 200, or the request raises, which covers a
  timeout), \<open>process_text_with_deepseek\<close> returns the cleaned text itself, and the region
  contributes exactly that text as its fragment.
\<close>

theorem service_failure_returns_cleaned_text:
  assumes "rtype r = Some t" and "t \<in> {ascii ''text'', ascii ''title''}"
      and "bbox r = Some b" and "length b \<ge> 4"
      and "region_ocr_text e image_path shape r b = Inr raw"
      and "py_strip raw \<noteq> []"
      and "service_failed (post e (clean_text_for_xml raw))"
  shows "process_text_with_deepseek e (clean_text_for_xml raw) = clean_text_for_xml raw
       \<and> region_step e image_path shape output_dir page_index st r =
         Inr (st\<lparr>latex_parts := latex_parts st @ [clean_text_for_xml raw],
                 pworld := (pworld st)\<lparr>sent := sent (pworld st) @ [clean_text_for_xml raw]\<rparr>\<rparr>)"
proof -
  have p: "process_text_with_deepseek e (clean_text_for_xml raw) = clean_text_for_xml raw"
    using assms(7)
    by (auto simp: process_text_with_deepseek_def service_failed_def split: http_out.splits)
  show ?thesis
    using assms(1-6) p by (auto simp: region_step_def Let_def)
qed

theorem service_failure_returns_cleaned_text_witness:
  "region_step demo_env [ascii ''p.png''] [10, 10, 3] [ascii ''out''] 1 demo_state demo_text_region =
     Inr (demo_state\<lparr>latex_parts := latex_parts demo_state @ [ascii ''ab''],
            pworld := (pworld demo_state)\<lparr>sent := sent (pworld demo_state) @ [ascii ''ab'']\<rparr>\<rparr>)"
proof -
  have h1: "rtype demo_text_region = Some (ascii ''text'')" by (simp add: demo_text_region_def)
  have h2: "ascii ''text'' \<in> {ascii ''text'', ascii ''title''}" by simp
  have h3: "bbox demo_text_region = Some [0, 0, 5, 5]" by (simp add: demo_text_region_def)
  have h4: "length [0::int, 0, 5, 5] \<ge> 4" by simp
  have h5: "region_ocr_text demo_env [ascii ''p.png''] [10, 10, 3] demo_text_region [0, 0, 5, 5] = Inr [97, 1, 98]"
    by (simp add: region_ocr_text_def res_ocr_text_def res_text_parts_def field_text_def
        demo_text_region_def py_strip_def py_isspace_def Let_def)
  have h6: "py_strip [97, 1, 98] \<noteq> []" by (simp add: py_strip_def py_isspace_def)
  have h7: "service_failed (post demo_env (clean_text_for_xml [97, 1, 98]))"
    by (simp add: service_failed_def demo_env_def)
  have c: "clean_text_for_xml [97, 1, 98] = ascii ''ab''"
    by (simp add: clean_text_for_xml_def is_ctrl_def ascii_def)
  show ?thesis
    using service_failure_returns_cleaned_text [OF h1 h2 h3 h4 h5 h6 h7, of "[ascii ''out'']" 1 demo_state]
    unfolding c by simp
qed

subsection \<open>Reading order\<close>

lemma sort_position_well_formed:
  "well_formed r \<Longrightarrow> sort_position r = (top_edge r, left_edge r)"
  by (auto simp: well_formed_def sort_position_def top_edge_def left_edge_def
      split: option.splits list.splits)

lemma reading_order_iff:
  "well_formed a \<Longrightarrow> well_formed b \<Longrightarrow> reading_order a b \<longleftrightarrow> sort_position a \<le> sort_position b"
  by (auto simp: sort_position_well_formed reading_order_def less_eq_prod_def)

lemma same_position_iff:
  "well_formed a \<Longrightarrow> well_formed b \<Longrightarrow> same_position a b \<longleftrightarrow> sort_position b = sort_position a"
  by (auto simp: sort_position_well_formed same_position_def)

lemma sorted_results_reading_order:
  assumes wf: "\<forall>r\<in>set (processed_results out). well_formed r"
  shows "sorted_wrt reading_order (sorted_results out)"
proof -
  have set_eq: "set (sorted_results out) = set (processed_results out)"
    by (simp add: sorted_results_def)
  have "sorted (map sort_position (sorted_results out))"
    by (simp add: sorted_results_def)
  then have "sorted_wrt (\<lambda>a b. sort_position a \<le> sort_position b) (sorted_results out)"
    by (simp add: sorted_map)
  then show ?thesis
    by (rule sorted_wrt_mono_rel[rotated]) (use wf set_eq reading_order_iff in auto)
qed

lemma sorted_results_stable:
  assumes wf: "\<forall>r\<in>set (processed_results out). well_formed r"
      and r: "r \<in> set (processed_results out)"
  shows "filter (same_position r) (sorted_results out) = filter (same_position r) (processed_results out)"
proof -
  have a: "filter (same_position r) xs = filter (\<lambda>y. sort_position y = sort_position r) xs"
    if "set xs \<subseteq> set (processed_results out)" for xs
    by (rule filter_cong) (use that wf r same_position_iff in auto)
  show ?thesis
    using a[of "sorted_results out"] a[of "processed_results out"]
    by (simp add: sorted_results_def sort_key_stable)
qed

lemma type_names:
  "ascii ''unknown'' \<notin> {ascii ''text'', ascii ''title''}"
  "ascii ''unknown'' \<noteq> ascii ''table''"
  "ascii ''unknown'' \<notin> {ascii ''figure'', ascii ''image'', ascii ''formula''}"
  "ascii ''unknown'' \<notin> {ascii ''table'', ascii ''figure'', ascii ''image'', ascii ''formula''}"
  "ascii ''table'' \<notin> {ascii ''text'', ascii ''title''}"
  "ascii ''table'' \<notin> {ascii ''figure'', ascii ''image'', ascii ''formula''}"
  by (simp_all add: ascii_def)

lemma visual_not_text:
  "t \<in> {ascii ''table'', ascii ''figure'', ascii ''image'', ascii ''formula''} \<Longrightarrow>
   t \<notin> {ascii ''text'', ascii ''title''}"
  by (auto simp: ascii_def)

lemma save_region_image_path:
  "snd (save_region_image e img b t od pi ri w) = snd (save_region_image e img b t od pi ri w0)"
  by (auto simp: save_region_image_def Let_def
      split: option.splits sum.splits prod.splits write_out.splits)

lemma region_ocr_text_returns:
  "length sh \<ge> 2 \<Longrightarrow> \<exists>t. region_ocr_text e ip sh r [x1, y1, x2, y2] = Inr t"
  by (simp add: region_ocr_text_def clamp_bbox_def Let_def)

lemma region_step_fragment:
  assumes wf: "well_formed r" and sh: "length sh \<ge> 2"
  shows "\<exists>st'. region_step e ip sh od pi st r = Inr st' \<and>
               latex_parts st' = latex_parts st @ region_fragment e ip sh od pi (region_index st) r \<and>
               region_index st' = (if saves_image r then region_index st + 1 else region_index st)"
proof -
  let ?w0 = "\<lparr>files = Map.empty, written = [], sent = []\<rparr>"
  let ?st0 = "\<lparr>region_index = region_index st, latex_parts = [], pworld = ?w0\<rparr>"
  from wf obtain x1 y1 x2 y2 where b: "bbox r = Some [x1, y1, x2, y2]"
    by (auto simp: well_formed_def split: option.splits list.splits)
  define t where "t = (case rtype r of None \<Rightarrow> ascii ''unknown'' | Some t' \<Rightarrow> t')"
  have si: "saves_image r \<longleftrightarrow> t \<in> {ascii ''table'', ascii ''figure'', ascii ''image'', ascii ''formula''}"
    using b type_names(4) by (auto simp: saves_image_def t_def split: option.splits)
  obtain rt where rt: "region_ocr_text e ip sh r [x1, y1, x2, y2] = Inr rt"
    using region_ocr_text_returns[OF sh] by blast
  obtain w1 p1 where s1: "save_region_image e (Some sh) [x1, y1, x2, y2] t od pi (region_index st) (pworld st) = (w1, p1)"
    by (cases "save_region_image e (Some sh) [x1, y1, x2, y2] t od pi (region_index st) (pworld st)")
  obtain w2 p2 where s2: "save_region_image e (Some sh) [x1, y1, x2, y2] t od pi (region_index st) ?w0 = (w2, p2)"
    by (cases "save_region_image e (Some sh) [x1, y1, x2, y2] t od pi (region_index st) ?w0")
  have p: "p1 = p2"
    using save_region_image_path[of e "Some sh" "[x1, y1, x2, y2]" t od pi "region_index st" "pworld st" ?w0]
    by (simp add: s1 s2)
  consider (textual) "t \<in> {ascii ''text'', ascii ''title''}"
    | (table) "t = ascii ''table''"
    | (visual) "t \<in> {ascii ''figure'', ascii ''image'', ascii ''formula''}"
    | (other) "t \<notin> {ascii ''text'', ascii ''title''}" "t \<noteq> ascii ''table''"
              "t \<notin> {ascii ''figure'', ascii ''image'', ascii ''formula''}"
    by blast
  then show ?thesis
  proof cases
    case textual
    then have "\<not> saves_image r" using si visual_not_text[of t] by blast
    then show ?thesis
      using textual b rt
      by (simp add: region_step_def region_fragment_def Let_def t_def[symmetric])
  next
    case table
    then have "saves_image r" using si by simp
    then show ?thesis
      using table b s1 s2 p type_names(5)
      by (cases p2) (simp_all add: region_step_def region_fragment_def Let_def t_def[symmetric])
  next
    case visual
    then have v: "saves_image r" using si by auto
    have nt: "t \<notin> {ascii ''text'', ascii ''title''}" using visual visual_not_text[of t] by blast
    have ntab: "t \<noteq> ascii ''table''" using visual type_names(6) by auto
    show ?thesis
      using v visual nt ntab b s1 s2 p
      by (cases p2) (simp_all add: region_step_def region_fragment_def Let_def t_def[symmetric])
  next
    case other
    then have "\<not> saves_image r" using si by auto
    then show ?thesis
      using other b
      by (simp add: region_step_def region_fragment_def Let_def t_def[symmetric])
  qed
qed

lemma regions_loop_fragments:
  assumes sh: "length sh \<ge> 2"
  shows "\<forall>r\<in>set rs. well_formed r \<Longrightarrow>
         \<exists>st'. regions_loop e ip sh od pi st rs = Inr st' \<and>
               latex_parts st' = latex_parts st @ page_fragments e ip sh od pi (region_index st) rs"
proof (induction rs arbitrary: st)
  case Nil
  then show ?case by simp
next
  case (Cons r rs)
  then have wf: "well_formed r" and wfs: "\<forall>r\<in>set rs. well_formed r" by simp_all
  from region_step_fragment[OF wf sh, of e ip od pi st] obtain st1 where
    s1: "region_step e ip sh od pi st r = Inr st1" and
    l1: "latex_parts st1 = latex_parts st @ region_fragment e ip sh od pi (region_index st) r" and
    i1: "region_index st1 = (if saves_image r then region_index st + 1 else region_index st)"
    by blast
  from Cons.IH[OF wfs, of st1] obtain st' where
    s2: "regions_loop e ip sh od pi st1 rs = Inr st'" and
    l2: "latex_parts st' = latex_parts st1 @ page_fragments e ip sh od pi (region_index st1) rs"
    by blast
  show ?case using s1 s2 l1 l2 i1 by simp
qed

text \<open>
  Claim C4. When every detected region has a well-formed box, the page run returns, and
  the page body it returns is the fragments of the regions joined by blank lines, each
  region contributing its own fragment, with the regions taken sorted by top edge, then
  left edge, regions at one position in their extraction order; the sorted list holds
  exactly the detected regions.
\<close>

theorem fragments_follow_reading_order:
  assumes "imread e image_path = Some shape" and "length shape \<ge> 2"
      and "structure_model e image_path \<noteq> LayoutRaised"
      and "out = structure_model e image_path"
      and wf: "\<forall>r\<in>set (processed_results out). well_formed r"
  shows "(\<exists>w'. process_single_image e image_path output_dir page_index w =
               Inr (w', py_join [10, 10]
                          (page_fragments e image_path shape output_dir page_index 0 (sorted_results out))))
       \<and> sorted_wrt reading_order (sorted_results out)
       \<and> set (sorted_results out) = set (processed_results out)
       \<and> length (sorted_results out) = length (processed_results out)
       \<and> (\<forall>r\<in>set (processed_results out).
            filter (same_position r) (sorted_results out) = filter (same_position r) (processed_results out))"
proof (intro conjI)
  let ?st = "\<lparr>region_index = 0, latex_parts = [], pworld = w\<rparr>"
  have wfs: "\<forall>r\<in>set (sorted_results out). well_formed r"
    using wf by (simp add: sorted_results_def)
  from regions_loop_fragments[OF assms(2) wfs, of e image_path output_dir page_index ?st]
  obtain st' where
    l: "regions_loop e image_path shape output_dir page_index ?st (sorted_results out) = Inr st'" and
    f: "latex_parts st' = page_fragments e image_path shape output_dir page_index 0 (sorted_results out)"
    by auto
  have "process_single_image e image_path output_dir page_index w =
          Inr (pworld st', py_join [10, 10] (latex_parts st'))"
    using assms(1,3) l unfolding assms(4)
    by (cases "structure_model e image_path") (simp_all add: process_single_image_def)
  then show "\<exists>w'. process_single_image e image_path output_dir page_index w =
               Inr (w', py_join [10, 10]
                          (page_fragments e image_path shape output_dir page_index 0 (sorted_results out)))"
    using f by auto
next
  show "sorted_wrt reading_order (sorted_results out)"
    using wf by (rule sorted_results_reading_order)
next
  show "set (sorted_results out) = set (processed_results out)"
    by (simp add: sorted_results_def)
next
  show "length (sorted_results out) = length (processed_results out)"
    by (simp add: sorted_results_def)
next
  show "\<forall>r\<in>set (processed_results out).
          filter (same_position r) (sorted_results out) = filter (same_position r) (processed_results out)"
    using sorted_results_stable[OF wf] by blast
qed

lemma reading_layout_sorted:
  "sorted_results reading_layout =
     [text_region (ascii ''first'') [0, 10, 90, 18], boxed (ascii ''figure'') [0, 20, 50, 40],
      text_region (ascii ''second'') [0, 50, 90, 60],
      \<lparr>rtype = Some (ascii ''title''), bbox = Some [0, 50, 90, 60],
       res = Some [LineSeq [Field None [], Field (Some [ascii ''third'']) []]]\<rparr>]"
  by (simp add: sorted_results_def processed_results_def reading_layout_def flatten_item_def
      sort_position_def boxed_def text_region_def less_eq_prod_def)

lemma reading_fragments:
  "page_fragments reading_env image_path [100, 100, 3] regions_dir (Suc 0) 0
     [text_region (ascii ''first'') [0, 10, 90, 18], boxed (ascii ''figure'') [0, 20, 50, 40],
      text_region (ascii ''second'') [0, 50, 90, 60],
      \<lparr>rtype = Some (ascii ''title''), bbox = Some [0, 50, 90, 60],
       res = Some [LineSeq [Field None [], Field (Some [ascii ''third'']) []]]\<rparr>] =
     [ascii ''first'', figure_markup (ascii ''figure/page_1_region_0.jpg'') [22270],
      ascii ''second'', ascii ''third'']"
  by (simp add: region_fragment_def region_step_def saves_image_def text_region_def boxed_def
      region_ocr_text_def res_ocr_text_def res_text_parts_def field_text_def py_strip_def
      py_isspace_def clean_text_for_xml_def is_ctrl_def process_text_with_deepseek_def
      reading_env_def demo_env_def save_region_image_def clamp_bbox_def region_file_name_def
      str_of_nat_0 str_of_nat_1 caption_of_def py_replace_char_def BS_def write_file_def
      ascii_def Let_def)

theorem fragments_follow_reading_order_witness:
  "(\<exists>w'. process_single_image reading_env [ascii ''in'', ascii ''p.png''] regions_dir 1 empty_world =
          Inr (w', ascii ''first'' @ [10, 10] @
                   figure_markup (ascii ''figure/page_1_region_0.jpg'') [22270] @ [10, 10] @
                   ascii ''second'' @ [10, 10] @ ascii ''third''))
   \<and> sorted_wrt reading_order (sorted_results reading_layout)
   \<and> length (sorted_results reading_layout) = 4"
proof -
  have h1: "imread reading_env [ascii ''in'', ascii ''p.png''] = Some [100, 100, 3]"
    by (simp add: reading_env_def)
  have h2: "length [100::nat, 100, 3] \<ge> 2" by simp
  have h3: "structure_model reading_env [ascii ''in'', ascii ''p.png''] \<noteq> LayoutRaised"
    by (simp add: reading_env_def reading_layout_def)
  have h4: "reading_layout = structure_model reading_env [ascii ''in'', ascii ''p.png'']"
    by (simp add: reading_env_def)
  have h5: "\<forall>r\<in>set (processed_results reading_layout). well_formed r"
    by (simp add: processed_results_def reading_layout_def flatten_item_def well_formed_def
        boxed_def text_region_def)
  have n: "length (processed_results reading_layout) = 4"
    by (simp add: processed_results_def reading_layout_def flatten_item_def)
  show ?thesis
    using fragments_follow_reading_order [OF h1 h2 h3 h4 h5, of regions_dir "Suc 0" empty_world] n
    unfolding reading_layout_sorted reading_fragments by simp
qed

subsection \<open>Regions that are cropped and saved\<close>

text \<open>
  Claim C8, at a write that fails. \<open>cv2.imwrite\<close> reports a failed write by returning
  False, and \<open>save_region_image\<close> discards that value: the figure region below still
  contributes its fragment, which refers to a file that is not on disk.
\<close>

theorem failed_write_still_contributes_fragment:
  "region_step failing_write_env [ascii ''p.png''] [10, 10, 3] [ascii ''out''] 1 demo_state demo_figure_region =
     Inr (demo_state\<lparr>latex_parts := [figure_markup (ascii ''figure/page_1_region_0.jpg'') [22270]],
                      region_index := 1\<rparr>)
   \<and> files (pworld demo_state) [ascii ''out'', ascii ''figure'', ascii ''page_1_region_0.jpg''] = None"
  by (simp add: region_step_def save_region_image_def clamp_bbox_def demo_figure_region_def boxed_def
      failing_write_env_def demo_env_def demo_state_def empty_world_def region_file_name_def
      str_of_nat_0 str_of_nat_1 caption_of_def py_replace_char_def BS_def ascii_def Let_def)

lemma save_region_image_skipped:
  assumes "\<not> (min (int w) x2 > max 0 x1 \<and> min (int h) y2 > max 0 y1)
           \<or> mkdir_raises e (output_dir @ [t])
           \<or> imwrite e (output_dir @ [t, region_file_name page_index ri]) = WriteRaised"
  shows "save_region_image e (Some [h, w, ch]) [x1, y1, x2, y2] t output_dir page_index ri wd = (wd, None)"
  using assms by (auto simp: save_region_image_def clamp_bbox_def Let_def)

lemma skipped_visual_region:
  assumes t: "rtype r = Some t"
      and v: "t \<in> {ascii ''table'', ascii ''figure'', ascii ''image'', ascii ''formula''}"
      and b: "bbox r = Some [x1, y1, x2, y2]"
      and s: "\<not> (min (int w) x2 > max 0 x1 \<and> min (int h) y2 > max 0 y1)
           \<or> mkdir_raises e (output_dir @ [t])
           \<or> imwrite e (output_dir @ [t, region_file_name page_index (region_index st)]) = WriteRaised"
  shows "region_step e image_path [h, w, ch] output_dir page_index st r =
           Inr (st\<lparr>region_index := region_index st + 1\<rparr>)"
proof -
  have nt: "t \<notin> {ascii ''text'', ascii ''title''}" using v by (rule visual_not_text)
  have sv: "save_region_image e (Some [h, w, ch]) [x1, y1, x2, y2] t output_dir page_index
              (region_index st) (pworld st) = (pworld st, None)"
    using s by (rule save_region_image_skipped)
  show ?thesis
  proof (cases "t = ascii ''table''")
    case True
    then show ?thesis using t b nt sv by (simp add: region_step_def)
  next
    case False
    then show ?thesis using t b nt sv v by (simp add: region_step_def)
  qed
qed

section \<open>Properties of the export\<close>

subsection \<open>Formats and fallbacks\<close>

lemma demo_page:
  "process_single_image demo_env image_path output_dir page_index w =
     Inr (w\<lparr>sent := sent w @ [ascii ''ab'']\<rparr>, ascii ''ab'')"
  by (simp add: process_single_image_def demo_env_def sorted_results_def processed_results_def flatten_item_def
     demo_text_region_def region_step_def region_ocr_text_def res_ocr_text_def res_text_parts_def
     field_text_def py_strip_def py_isspace_def clean_text_for_xml_def is_ctrl_def process_text_with_deepseek_def
     ascii_def Let_def)

lemma docx_env_page:
  "process_single_image docx_env image_path output_dir page_index w =
     Inr (w\<lparr>sent := sent w @ [ascii ''ab'']\<rparr>, ascii ''ab'')"
  by (simp add: process_single_image_def docx_env_def demo_env_def sorted_results_def processed_results_def
     flatten_item_def demo_text_region_def region_step_def region_ocr_text_def res_ocr_text_def
     res_text_parts_def field_text_def py_strip_def py_isspace_def clean_text_for_xml_def is_ctrl_def
     process_text_with_deepseek_def ascii_def Let_def)

lemma png_suffix: "py_lower (py_suffix (ascii ''p.png'')) = ascii ''.png''"
  by (simp add: py_lower_def py_suffix_def rfind_def ascii_def)

lemma demo_image_files: "image_files demo_env input_folder = [[ascii ''in'', ascii ''p.png'']]"
  by (simp add: image_files_def demo_env_def path_name_def png_suffix image_extensions_def)

lemma docx_env_image_files: "image_files docx_env input_folder = [[ascii ''in'', ascii ''p.png'']]"
  using demo_image_files[of input_folder] by (simp add: image_files_def docx_env_def)

lemma strip_ab: "py_strip (ascii ''ab'') = ascii ''ab''"
  by (simp add: py_strip_def py_isspace_def ascii_def)

lemma demo_pages:
  "pages_loop demo_env output_dir page_index w [image_file] =
     Inr (w\<lparr>sent := sent w @ [ascii ''ab'']\<rparr>, [page_section page_index (ascii ''ab'')])"
proof -
  have "ascii ''ab'' \<noteq> []" by (simp add: ascii_def)
  then show ?thesis by (simp add: demo_page strip_ab)
qed

lemma docx_env_pages:
  "pages_loop docx_env output_dir page_index w [image_file] =
     Inr (w\<lparr>sent := sent w @ [ascii ''ab'']\<rparr>, [page_section page_index (ascii ''ab'')])"
proof -
  have "ascii ''ab'' \<noteq> []" by (simp add: ascii_def)
  then show ?thesis by (simp add: docx_env_page strip_ab)
qed

lemma format_names:
  "ascii ''html'' \<noteq> ascii ''pdf''" "ascii ''html'' \<noteq> ascii ''docx''" "ascii ''html'' \<noteq> ascii ''tex''"
  "ascii ''pdf'' \<noteq> ascii ''html''" "ascii ''pdf'' \<noteq> ascii ''docx''" "ascii ''pdf'' \<noteq> ascii ''tex''"
  "ascii ''docx'' \<noteq> ascii ''html''" "ascii ''docx'' \<noteq> ascii ''pdf''" "ascii ''docx'' \<noteq> ascii ''tex''"
  "ascii ''tex'' \<noteq> ascii ''html''" "ascii ''tex'' \<noteq> ascii ''pdf''" "ascii ''tex'' \<noteq> ascii ''docx''"
  by (simp_all add: ascii_def)

lemma export_unknown_format:
  assumes "output_format \<notin> {ascii ''html'', ascii ''pdf'', ascii ''docx'', ascii ''tex''}"
  shows "export e w all_latex_content body_content output_path output_dir output_format = Inr (w, None)"
  using assms by (simp add: export_def docx_stage_def tex_stage_def)

lemma export_pdf_failure:
  assumes "pdf_export e w all_latex_content output_path output_dir = Inl (err, w')"
  shows "export e w all_latex_content body_content output_path output_dir (ascii ''pdf'') = Inr (w', None)"
  using assms by (simp add: export_def docx_stage_def tex_stage_def format_names)

text \<open>
  Claim C1, at the failing input. The format \<open>pdf\<close> is requested and the document-writing
  capability is missing. The handler assigns \<open>output_format = 'html'\<close>, but the html branch
  is the \<open>if\<close> of the same \<open>if ... elif\<close> statement and is not entered again; neither
  \<open>if docx\<close> nor \<open>if tex\<close> applies, and the run ends with None and no file written.
\<close>

theorem pdf_fallback_writes_nothing:
  "process_all_images demo_env folder (target ''.pdf'') (ascii ''pdf'') empty_world =
     Inr (empty_world\<lparr>sent := [ascii ''ab'']\<rparr>, None)"
proof -
  have p: "pdf_export demo_env w all_latex_content output_path output_dir = Inl (ImportError, w)"
    for w all_latex_content output_path output_dir
    by (simp add: pdf_export_def demo_env_def)
  have m: "\<not> mkdir_raises demo_env d" for d by (simp add: demo_env_def)
  show ?thesis
    by (simp add: process_all_images_def m demo_image_files demo_pages export_pdf_failure[OF p]
        empty_world_def Let_def del: pages_loop.simps)
qed

text \<open>
  Claim C10. For a format outside html, pdf, docx and tex and a folder with at least one
  image, the run is the reading of the pages alone: it raises what that raises, and
  otherwise returns None in the world the pages left, so the export writes no file.
\<close>

theorem unknown_format_writes_nothing:
  assumes "output_format \<notin> {ascii ''html'', ascii ''pdf'', ascii ''docx'', ascii ''tex''}"
      and "image_files e input_folder \<noteq> []"
  shows "process_all_images e input_folder output_path output_format w =
           (if mkdir_raises e (path_parent output_path @ [ascii ''processed_regions''])
            then Inl (OSError, w)
            else (case pages_loop e (path_parent output_path @ [ascii ''processed_regions'']) 1 w
                         (image_files e input_folder) of
                    Inl err \<Rightarrow> Inl err
                  | Inr (w', all_latex_content) \<Rightarrow> Inr (w', None)))"
  using assms(2)
  by (simp add: process_all_images_def export_unknown_format[OF assms(1)] Let_def
      split: sum.splits prod.splits)

theorem unknown_format_writes_nothing_witness:
  "process_all_images demo_env folder (target ''.md'') (ascii ''md'') empty_world =
     Inr (empty_world\<lparr>sent := [ascii ''ab'']\<rparr>, None)"
proof -
  have u: "ascii ''md'' \<notin> {ascii ''html'', ascii ''pdf'', ascii ''docx'', ascii ''tex''}"
    by (simp add: ascii_def)
  have i: "image_files demo_env folder \<noteq> []" by (simp add: demo_image_files)
  have m: "\<not> mkdir_raises demo_env d" for d by (simp add: demo_env_def)
  show ?thesis
    using unknown_format_writes_nothing [OF u i, of "target ''.md''" empty_world]
    by (simp add: m demo_image_files demo_pages empty_world_def del: pages_loop.simps)
qed

subsection \<open>The local name re\<close>

lemma html_export_raises:
  "all_latex_content \<noteq> [] \<Longrightarrow>
     html_export e w all_latex_content output_path output_dir = Inl (UnboundLocalError, w)"
  by (cases all_latex_content) (simp_all add: html_export_def html_page_def)

lemma pdf_export_raises:
  "all_latex_content \<noteq> [] \<Longrightarrow>
     \<exists>err. pdf_export e w all_latex_content output_path output_dir = Inl (err, w)"
  by (cases all_latex_content)
     (auto simp: pdf_export_def pdf_page_def save_document_def split: sum.splits)

lemma pdf_request_returns_none:
  assumes "\<not> mkdir_raises e (path_parent output_path @ [ascii ''processed_regions''])"
      and "pages_loop e (path_parent output_path @ [ascii ''processed_regions'']) 1 w
             (image_files e input_folder) = Inr (w1, all_latex_content)"
      and "all_latex_content \<noteq> []"
  shows "process_all_images e input_folder output_path (ascii ''pdf'') w = Inr (w1, None)"
proof -
  have i: "image_files e input_folder \<noteq> []" using assms(2,3) by (cases "image_files e input_folder") auto
  obtain err where p: "pdf_export e w1 all_latex_content output_path
      (path_parent output_path @ [ascii ''processed_regions'']) = Inl (err, w1)"
    using pdf_export_raises[OF assms(3)] by blast
  show ?thesis
    using assms(1,2) i export_pdf_failure[OF p]
    by (simp add: process_all_images_def Let_def)
qed

text \<open>
  Claim C2, at the failing input. The format \<open>pdf\<close> is requested, \<open>python-docx\<close> is
  installed and nothing fails on disk; the page is not blank. The pdf branch raises at its
  first use of \<open>re\<close>, its handler assigns \<open>output_format = 'html'\<close>, no later statement
  applies, and the run returns None with no file written.
\<close>

theorem pdf_request_returns_none_example:
  "process_all_images docx_env folder (target ''.pdf'') (ascii ''pdf'') empty_world =
     Inr (empty_world\<lparr>sent := [ascii ''ab'']\<rparr>, None)"
proof -
  have m: "\<not> mkdir_raises docx_env d" for d by (simp add: docx_env_def demo_env_def)
  have p: "pages_loop docx_env (path_parent (target ''.pdf'') @ [ascii ''processed_regions'']) 1 empty_world
             (image_files docx_env folder) =
           Inr (empty_world\<lparr>sent := [ascii ''ab'']\<rparr>, [page_section 1 (ascii ''ab'')])"
    by (simp add: docx_env_image_files docx_env_pages empty_world_def del: pages_loop.simps)
  show ?thesis
    by (rule pdf_request_returns_none[OF m p]) simp
qed

subsection \<open>The tex format\<close>

lemma with_suffix_differ:
  assumes "with_suffix p (ascii ''.tex'') = Inr a" and "with_suffix p (ascii ''.tex.content'') = Inr b"
  shows "a \<noteq> b"
proof -
  have "length (last a) \<noteq> length (last b)"
    using assms by (auto simp: with_suffix_def Let_def ascii_def split: if_splits)
  then show ?thesis by auto
qed

lemma utf8_encodable_append:
  "utf8_encodable (a @ b) \<longleftrightarrow> utf8_encodable a \<and> utf8_encodable b"
  by (simp add: utf8_encodable_def)

lemma utf8_encodable_frame: "utf8_encodable TEX_PREAMBLE" "utf8_encodable TEX_END"
  by (simp_all add: TEX_PREAMBLE_def TEX_END_def utf8_encodable_def cmd_def ascii_def BS_def)

text \<open>
  Claim C9. When \<open>tex\<close> is requested, and the body can be encoded and the two files can
  be opened and written, nothing is parsed: the file at the \<open>.tex\<close> path holds the fixed
  preamble (document class, the eleven packages, A4 geometry, title, author and date, start
  of the document and \<open>\maketitle\<close>), then the concatenated page bodies as they are, then
  the closing line; the file at the \<open>.tex.content\<close> path holds the concatenated bodies
  alone; and these two writes are all the export does.
\<close>

theorem tex_export_is_verbatim:
  assumes "image_files e input_folder \<noteq> []"
      and "\<not> mkdir_raises e (path_parent output_path @ [ascii ''processed_regions''])"
      and "pages_loop e (path_parent output_path @ [ascii ''processed_regions'']) 1 w
             (image_files e input_folder) = Inr (w1, all_latex_content)"
      and "with_suffix output_path (ascii ''.tex'') = Inr latex_path"
      and "with_suffix output_path (ascii ''.tex.content'') = Inr content_path"
      and "body_content = py_join PAGE_BREAK all_latex_content"
      and "utf8_encodable body_content"
      and "\<not> open_raises e latex_path" and "\<not> write_raises e latex_path"
      and "\<not> open_raises e content_path" and "\<not> write_raises e content_path"
  shows "\<exists>w'. process_all_images e input_folder output_path (ascii ''tex'') w = Inr (w', Some latex_path)
          \<and> files w' latex_path =
              Some (TextFile
                (concat (map (\<lambda>l. l @ [10])
                   [cmd ''documentclass[12pt]{article}'',
                    cmd ''usepackage[utf8]{inputenc}'',
                    cmd ''usepackage{graphicx}'',
                    cmd ''usepackage{float}'',
                    cmd ''usepackage{amsmath}'',
                    cmd ''usepackage{amsfonts}'',
                    cmd ''usepackage{amssymb}'',
                    cmd ''usepackage{booktabs}'',
                    cmd ''usepackage{array}'',
                    cmd ''usepackage{longtable}'',
                    cmd ''usepackage{xcolor}'',
                    cmd ''usepackage{geometry}'',
                    cmd ''geometry{a4paper, margin=2.5cm}'',
                    [],
                    cmd ''title{'' @ [25991, 26723, 22788, 29702, 32467, 26524] @ ascii ''}'',
                    cmd ''author{'' @ [33258, 21160, 29983, 25104] @ ascii ''}'',
                    cmd ''date{'' @ cmd ''today}'',
                    [],
                    cmd ''begin{document}'',
                    [],
                    cmd ''maketitle'',
                    []]) @
                 body_content @ [10, 10] @ cmd ''end{document}''))
          \<and> files w' content_path = Some (TextFile body_content)
          \<and> written w' = written w1 @ [latex_path, content_path]
          \<and> sent w' = sent w1
          \<and> (\<forall>p. p \<noteq> latex_path \<and> p \<noteq> content_path \<longrightarrow> files w' p = files w1 p)"
proof -
  let ?doc = "TEX_PREAMBLE @ body_content @ TEX_END"
  let ?w' = "write_file content_path (TextFile body_content) (write_file latex_path (TextFile ?doc) w1)"
  have ne: "latex_path \<noteq> content_path" using assms(4,5) by (rule with_suffix_differ)
  have enc: "utf8_encodable ?doc"
    using assms(7) by (simp add: utf8_encodable_append utf8_encodable_frame)
  have t: "tex_export e w1 body_content output_path = Inr (?w', latex_path)"
    using assms(4,5,7-11) enc by (simp add: tex_export_def write_text_def Let_def)
  have run: "process_all_images e input_folder output_path (ascii ''tex'') w = Inr (?w', Some latex_path)"
    using assms(1-3) t
    by (simp add: process_all_images_def export_def docx_stage_def tex_stage_def
        format_names return_path_def Let_def assms(6)[symmetric])
  have c: "files ?w' latex_path = Some (TextFile ?doc)"
    "files ?w' content_path = Some (TextFile body_content)"
    "written ?w' = written w1 @ [latex_path, content_path]"
    "sent ?w' = sent w1"
    "\<forall>p. p \<noteq> latex_path \<and> p \<noteq> content_path \<longrightarrow> files ?w' p = files w1 p"
    using ne by (simp_all add: write_file_def)
  show ?thesis
    using run c unfolding TEX_PREAMBLE_def TEX_END_def by blast
qed

theorem tex_export_is_verbatim_witness:
  "\<exists>w'. process_all_images demo_env folder (target ''.tex'') (ascii ''tex'') empty_world =
          Inr (w', Some (target ''.tex''))
       \<and> files w' (target ''.tex'') =
           Some (TextFile (TEX_PREAMBLE @ page_section 1 (ascii ''ab'') @ TEX_END))
       \<and> files w' (target ''.tex.content'') = Some (TextFile (page_section 1 (ascii ''ab'')))
       \<and> written w' = [target ''.tex'', target ''.tex.content'']"
proof -
  have i: "image_files demo_env folder \<noteq> []" by (simp add: demo_image_files)
  have m: "\<not> mkdir_raises demo_env d" for d by (simp add: demo_env_def)
  have o: "\<not> open_raises demo_env d" for d by (simp add: demo_env_def)
  have r: "\<not> write_raises demo_env d" for d by (simp add: demo_env_def)
  have p: "pages_loop demo_env (path_parent (target ''.tex'') @ [ascii ''processed_regions'']) 1 empty_world
             (image_files demo_env folder) = Inr (empty_world\<lparr>sent := [ascii ''ab'']\<rparr>, [page_section 1 (ascii ''ab'')])"
    by (simp add: demo_image_files demo_pages empty_world_def del: pages_loop.simps)
  have s1: "with_suffix (target ''.tex'') (ascii ''.tex'') = Inr (target ''.tex'')"
    by (simp add: with_suffix_def target_def path_name_def py_suffix_def rfind_def ascii_def)
  have s2: "with_suffix (target ''.tex'') (ascii ''.tex.content'') = Inr (target ''.tex.content'')"
    by (simp add: with_suffix_def target_def path_name_def py_suffix_def rfind_def ascii_def)
  have b: "page_section 1 (ascii ''ab'') = py_join PAGE_BREAK [page_section 1 (ascii ''ab'')]" by simp
  have u: "utf8_encodable (page_section 1 (ascii ''ab''))"
    by (simp add: utf8_encodable_def page_section_def page_title_def str_of_nat_1 cmd_def ascii_def BS_def)
  show ?thesis
    using tex_export_is_verbatim [OF i m p s1 s2 b u o r o r]
    by (auto simp: empty_world_def TEX_PREAMBLE_def TEX_END_def)
qed

lemma tex_export_unencodable:
  assumes "with_suffix output_path (ascii ''.tex'') = Inr latex_path"
      and "\<not> open_raises e latex_path" and "\<not> utf8_encodable body_content"
  shows "tex_export e w body_content output_path =
           Inl (UnicodeEncodeError, write_file latex_path (TextFile []) w)"
  using assms by (simp add: tex_export_def write_text_def utf8_encodable_append Let_def)

subsection \<open>Figure blocks\<close>

lemma figure_block_caption: "re_search CAPTION demo_figure_block = Some [22270]"
  by (simp add: demo_figure_block_def figure_markup_def cmd_def ascii_def BS_def startswith_def
      CAPTION_def command_with_arg_def group_text_def)

lemma title_heading: "add_heading document_title 0 = Inr [Heading document_title 0]"
  by (simp add: add_heading_def xml_compatible_def document_title_def)

lemma figure_page:
  "docx_page docx_env regions_dir empty_world (page_section (Suc 0) demo_figure_block) =
     Inr [Heading (page_title (ascii ''1'')) 2, PageBreak]"
  by (simp add: docx_page_def page_header_def page_section_def page_title_def str_of_nat_1
      PAGE_HEADER_def PAGE_HEADER_LINE_def group_text_def expand_def startswith_def py_isdecimal_def
      decimal_ranges_def py_isspace_def re_split_def BLOCKS4_def FIGURE_ENV_def command_with_arg_def
      docx_block_def docx_figure_def py_strip_def INCLUDEGRAPHICS_def
      py_replace_char_def os_sep_def path_join_def path_parts_def regions_dir_def
      docx_env_def demo_env_def empty_world_def page_elems_def add_heading_def xml_compatible_def
      demo_figure_block_def figure_markup_def cmd_def ascii_def BS_def Let_def)

text \<open>
  Claim C3, at the failing input. The page body holds one figure block with the caption
  \<open>\caption{...}\<close>; its image is not on disk. The docx export writes the title, the page
  heading and the page break: the caption is lost with the image, because the docx branch
  adds it inside the test that the file exists.
\<close>

theorem docx_drops_caption_of_missing_image:
  "re_search CAPTION demo_figure_block = Some [22270]
   \<and> \<not> exists_on_disk docx_env empty_world (path_join regions_dir (ascii ''figure/page_1_region_0.jpg''))
   \<and> docx_export docx_env empty_world [page_section 1 demo_figure_block] (target ''.docx'') regions_dir =
       Inr (write_file (target ''.docx'')
              (DocxFile [Heading document_title 0, Heading (page_title (ascii ''1'')) 2, PageBreak])
              empty_world,
            target ''.docx'')"
proof -
  have a: "docx_available docx_env" "\<not> open_raises docx_env p" "\<not> save_raises docx_env p" for p
    by (simp_all add: docx_env_def demo_env_def)
  have n: "\<not> exists_on_disk docx_env empty_world p" for p
    by (simp add: docx_env_def demo_env_def empty_world_def)
  show ?thesis
    by (simp add: figure_block_caption n docx_export_def save_document_def title_heading a figure_page)
qed

subsection \<open>Escaped special characters\<close>

lemma escaped_pages:
  "docx_page docx_env regions_dir empty_world (page_section (Suc 0) (ascii ''R'' @ cmd ''&D'')) =
     Inr [Heading (page_title (ascii ''1'')) 2, Paragraph (ascii ''R&D''), PageBreak]"
  "docx_page docx_env regions_dir empty_world (page_section (Suc 0) (cmd ''& Co'')) =
     Inr [Heading (page_title (ascii ''1'')) 2, PageBreak]"
  by (simp_all add: docx_page_def page_header_def page_section_def page_title_def str_of_nat_1
      PAGE_HEADER_def PAGE_HEADER_LINE_def group_text_def expand_def startswith_def py_isdecimal_def
      decimal_ranges_def py_isspace_def re_split_def BLOCKS4_def FIGURE_ENV_def command_with_arg_def
      docx_block_def docx_line_def docx_subs_def re_sub_def ESCAPED_SPECIAL_def TEXTBACKSLASH_def
      ANY_COMMAND_WITH_ARG_def ANY_COMMAND_def py_strip_def
      page_elems_def add_heading_def add_paragraph_def xml_compatible_def
      cmd_def ascii_def BS_def Let_def)

text \<open>
  Claim C6, at the failing input. The docx export renders \<open>R\&D\<close> as the paragraph
  \<open>R&D\<close>; but of a page whose text is the line \<open>\& Co\<close> it renders nothing: the test
  that skips command lines takes every line that begins with a backslash, other than
  \<open>\text...\<close>, for a command.
\<close>

theorem leading_escape_line_is_dropped:
  "docx_export docx_env empty_world [page_section 1 (ascii ''R'' @ cmd ''&D'')] (target ''.docx'') regions_dir =
     Inr (write_file (target ''.docx'')
            (DocxFile [Heading document_title 0, Heading (page_title (ascii ''1'')) 2,
                       Paragraph (ascii ''R&D''), PageBreak])
            empty_world,
          target ''.docx'')
   \<and> docx_export docx_env empty_world [page_section 1 (cmd ''& Co'')] (target ''.docx'') regions_dir =
       Inr (write_file (target ''.docx'')
              (DocxFile [Heading document_title 0, Heading (page_title (ascii ''1'')) 2, PageBreak])
              empty_world,
            target ''.docx'')"
proof -
  have a: "docx_available docx_env" "\<not> open_raises docx_env p" "\<not> save_raises docx_env p" for p
    by (simp_all add: docx_env_def demo_env_def)
  show ?thesis
    by (simp add: docx_export_def save_document_def title_heading a escaped_pages)
qed

lemma html_text_line_raises:
  "html_line (ascii ''R'' @ cmd ''&D'') = Inl ReError"
  by (simp add: html_line_def html_subs_def re_sub_def py_strip_def py_isspace_def startswith_def
      command_with_arg_def ESCAPED_SPECIAL_def group_text_def expand_def
      cmd_def ascii_def BS_def Let_def)

end
